theory Spec2Isabelle
  imports Complex_Main
begin

section \<open>Single-precision values\<close>

text \<open>
  The firmware computes with C++ \<open>float\<close>. The control flow of the motion pipeline
  depends on the special values of that type: a stepper reports "no further step" as NaN,
  every comparison with NaN is false, and a division by zero does not trap but yields an
  infinity or NaN. These are kept. Finite values are idealised as exact reals: rounding,
  underflow, overflow to infinity and the sign of zero are not part of the model. A zero
  divisor is taken as +0; that is the sign it has in the source whenever the zero is a
  difference of equal numbers, a square root, or a quotient of such a zero by a positive
  number (which is where the planner divides by zero), and it is not when the zero comes
  from a negative operand.
\<close>

datatype flt = NaN | NInf | Fin real | PInf

fun isnan :: "flt \<Rightarrow> bool" where
  "isnan NaN = True"
| "isnan _ = False"

text \<open>\<open>fless a b\<close> is the C++ expression \<open>a < b\<close>; \<open>a > b\<close> is written \<open>fless b a\<close>.\<close>

fun fless :: "flt \<Rightarrow> flt \<Rightarrow> bool" where
  "fless NaN _ = False"
| "fless _ NaN = False"
| "fless (Fin a) (Fin b) = (a < b)"
| "fless NInf NInf = False"
| "fless NInf _ = True"
| "fless PInf _ = False"
| "fless (Fin a) PInf = True"
| "fless (Fin a) NInf = False"

text \<open>\<open>feq a b\<close> is \<open>a == b\<close> (false on NaN), \<open>fle a b\<close> is \<open>a <= b\<close>.\<close>

definition feq :: "flt \<Rightarrow> flt \<Rightarrow> bool" where
  "feq a b = (\<not> isnan a \<and> \<not> isnan b \<and> a = b)"

definition fle :: "flt \<Rightarrow> flt \<Rightarrow> bool" where
  "fle a b = (fless a b \<or> feq a b)"

fun fneg :: "flt \<Rightarrow> flt" where
  "fneg NaN = NaN"
| "fneg NInf = PInf"
| "fneg (Fin a) = Fin (- a)"
| "fneg PInf = NInf"

fun fadd :: "flt \<Rightarrow> flt \<Rightarrow> flt" where
  "fadd NaN _ = NaN"
| "fadd _ NaN = NaN"
| "fadd (Fin a) (Fin b) = Fin (a + b)"
| "fadd PInf NInf = NaN"
| "fadd NInf PInf = NaN"
| "fadd PInf _ = PInf"
| "fadd _ PInf = PInf"
| "fadd NInf _ = NInf"
| "fadd _ NInf = NInf"

definition fsub :: "flt \<Rightarrow> flt \<Rightarrow> flt" where
  "fsub a b = fadd a (fneg b)"

text \<open>The sign of a value, for the products and quotients that involve an infinity.\<close>

fun fsign :: "flt \<Rightarrow> int" where
  "fsign NaN = 0"
| "fsign NInf = - 1"
| "fsign (Fin a) = (if a < 0 then - 1 else if a = 0 then 0 else 1)"
| "fsign PInf = 1"

definition inf_of_sign :: "int \<Rightarrow> flt" where
  "inf_of_sign s = (if s < 0 then NInf else if s = 0 then NaN else PInf)"

fun fmul :: "flt \<Rightarrow> flt \<Rightarrow> flt" where
  "fmul NaN _ = NaN"
| "fmul _ NaN = NaN"
| "fmul (Fin a) (Fin b) = Fin (a * b)"
| "fmul a b = inf_of_sign (fsign a * fsign b)"

fun fdiv :: "flt \<Rightarrow> flt \<Rightarrow> flt" where
  "fdiv NaN _ = NaN"
| "fdiv _ NaN = NaN"
| "fdiv (Fin a) (Fin b) = (if b = 0 then inf_of_sign (fsign (Fin a)) else Fin (a / b))"
| "fdiv (Fin a) _ = Fin 0"
| "fdiv a (Fin b) = inf_of_sign (fsign a * (if b < 0 then - 1 else 1))"
| "fdiv _ _ = NaN"

fun fsqrt :: "flt \<Rightarrow> flt" where
  "fsqrt NaN = NaN"
| "fsqrt NInf = NaN"
| "fsqrt (Fin a) = (if a < 0 then NaN else Fin (sqrt a))"
| "fsqrt PInf = PInf"

text \<open>
  \<open>std::max(a, b)\<close> is \<open>(a < b) ? b : a\<close> and \<open>std::min(a, b)\<close> is
  \<open>(b < a) ? b : a\<close>, also on NaN.
\<close>

definition std_max :: "flt \<Rightarrow> flt \<Rightarrow> flt" where
  "std_max a b = (if fless a b then b else a)"

definition std_min :: "flt \<Rightarrow> flt \<Rightarrow> flt" where
  "std_min a b = (if fless b a then b else a)"

text \<open>The conversion of an \<open>int\<close> operand in mixed arithmetic.\<close>

definition flt_of_int :: "int \<Rightarrow> flt" where
  "flt_of_int i = Fin (of_int i)"

section \<open>Axis steppers (drivers/lineardeltastepper.h)\<close>

datatype StepDirection = StepBackward | StepForward

text \<open>
  The base class \<open>AxisStepper\<close> carries the axis index, the time of the next step
  (seconds from the start of the segment) and its direction.
\<close>

record AxisStepper =
  index :: nat
  time :: flt
  direction :: StepDirection

text \<open>
  \<open>LinearDeltaStepper\<close> extends it with the values cached by its constructor. The
  step offset \<open>sTotal\<close> is a C++ \<open>int\<close>; it is an unbounded integer here (signed
  overflow is undefined in the source and step counts stay far from it).
\<close>

record LinearDeltaStepper = AxisStepper +
  stepper_r :: flt
  stepper_L :: flt
  MM_STEPS :: flt
  M0 :: flt
  sTotal :: int
  inv_v2 :: flt
  vz_over_v2 :: flt
  almostTerm1 :: flt
  almostRootParam :: flt
  almostRootParamV2S :: flt

text \<open>
  The constructor of \<open>LinearDeltaStepper\<close>, for the axis \<open>AxisIdx\<close>. \<open>DeltaAxis\<close> and the
  coordinate map are declared in drivers/lineardeltacoordmap.h, which is not under src:
  the values
  that the constructor reads from the map are arguments here (\<open>r\<close>, \<open>L\<close>, the
  millimetres per step \<open>mm\<close> of the axis, the position \<open>axisPos\<close> of the axis in steps
  and the Cartesian position \<open>(x0, y0, z0)\<close>), and so is the direction, which the
  constructor leaves as the base class sets it.
\<close>

datatype DeltaAxis = DELTA_AXIS_A | DELTA_AXIS_B | DELTA_AXIS_C

definition LinearDeltaStepper_init ::
  "DeltaAxis \<Rightarrow> nat \<Rightarrow> StepDirection \<Rightarrow> flt \<Rightarrow> flt \<Rightarrow> flt \<Rightarrow> int \<Rightarrow> flt \<times> flt \<times> flt
   \<Rightarrow> flt \<Rightarrow> flt \<Rightarrow> flt \<Rightarrow> LinearDeltaStepper" where
  "LinearDeltaStepper_init axis idx dir r L mm axisPos xyz0 vx vy vz =
     (case xyz0 of (x0, y0, z0) \<Rightarrow>
        let m0 = fmul (flt_of_int axisPos) mm;
            inv = fdiv (Fin 1) (fadd (fadd (fmul vx vx) (fmul vy vy)) (fmul vz vz))
        in \<lparr>index = idx, time = Fin 0, direction = dir,
            stepper_r = r, stepper_L = L, MM_STEPS = mm, M0 = m0, sTotal = 0,
            inv_v2 = inv,
            vz_over_v2 = fmul vz inv,
            almostTerm1 =
              (case axis of
                 DELTA_AXIS_A \<Rightarrow>
                   fmul inv (fadd (fsub (fsub (fmul r vy) (fmul vx x0)) (fmul vy y0))
                                  (fmul vz (fsub m0 z0)))
               | DELTA_AXIS_B \<Rightarrow>
                   fmul inv (fadd (fsub (fsub
                       (fdiv (fmul r (fsub (fmul (Fin (sqrt 3)) vx) vy)) (Fin 2))
                       (fmul vx x0)) (fmul vy y0)) (fmul vz (fsub m0 z0)))
               | DELTA_AXIS_C \<Rightarrow>
                   fmul inv (fadd (fsub (fsub
                       (fdiv (fmul (fneg r) (fadd (fmul (Fin (sqrt 3)) vx) vy)) (Fin 2))
                       (fmul vx x0)) (fmul vy y0)) (fmul vz (fsub m0 z0)))),
            almostRootParam =
              (case axis of
                 DELTA_AXIS_A \<Rightarrow>
                   fmul (fneg inv)
                     (fadd (fsub (fadd (fadd (fadd (fmul (fneg L) L) (fmul x0 x0))
                                             (fmul (fsub r y0) (fsub r y0)))
                                       (fmul m0 m0))
                                 (fmul (fmul (Fin 2) m0) z0))
                           (fmul z0 z0))
               | DELTA_AXIS_B \<Rightarrow>
                   fmul (fneg inv)
                     (fadd (fsub (fadd (fadd (fadd (fadd (fadd (fmul (fneg L) L) (fmul r r))
                                                         (fmul x0 x0)) (fmul y0 y0))
                                             (fmul r (fadd (fmul (fneg (Fin (sqrt 3))) x0) y0)))
                                       (fmul m0 m0))
                                 (fmul (fmul (Fin 2) m0) z0))
                           (fmul z0 z0))
               | DELTA_AXIS_C \<Rightarrow>
                   fmul (fneg inv)
                     (fadd (fsub (fadd (fadd (fadd (fadd (fadd (fmul (fneg L) L) (fmul r r))
                                                         (fmul x0 x0)) (fmul y0 y0))
                                             (fmul r (fadd (fmul (Fin (sqrt 3)) x0) y0)))
                                       (fmul m0 m0))
                                 (fmul (fmul (Fin 2) m0) z0))
                           (fmul z0 z0))),
            almostRootParamV2S = fsub (fmul (Fin 2) m0) (fmul (Fin 2) z0)\<rparr>)"

text \<open>
  The towers stand at \<open>(r sin w, r cos w)\<close> for \<open>w\<close> = 0, 120 and 240 degrees.
\<close>

definition tower_x :: "DeltaAxis \<Rightarrow> real \<Rightarrow> real" where
  "tower_x axis r =
     (case axis of DELTA_AXIS_A \<Rightarrow> 0 | DELTA_AXIS_B \<Rightarrow> sqrt 3 / 2 * r | DELTA_AXIS_C \<Rightarrow> - (sqrt 3 / 2 * r))"

definition tower_y :: "DeltaAxis \<Rightarrow> real \<Rightarrow> real" where
  "tower_y axis r =
     (case axis of DELTA_AXIS_A \<Rightarrow> r | DELTA_AXIS_B \<Rightarrow> - (r / 2) | DELTA_AXIS_C \<Rightarrow> - (r / 2))"

text \<open>
  \<open>LinearDeltaStepper::getTerm1AndRootParam\<close>. The next step at offset \<open>s\<close> (in mm)
  happens at \<open>term1 \<plusminus> sqrt rootParam\<close>.
\<close>

definition getTerm1AndRootParam :: "LinearDeltaStepper \<Rightarrow> flt \<Rightarrow> flt \<times> flt" where
  "getTerm1AndRootParam stp s =
     (let term1 = fadd (almostTerm1 stp) (fmul (vz_over_v2 stp) s);
          rootParam = fsub (fadd (fmul term1 term1) (almostRootParam stp))
                           (fmul (fmul (inv_v2 stp) s) (fadd (almostRootParamV2S stp) s))
      in (term1, rootParam))"

text \<open>\<open>LinearDeltaStepper::testDir\<close>: the time at which the carriage is \<open>s\<close> mm from \<open>M0\<close>.\<close>

definition testDir :: "LinearDeltaStepper \<Rightarrow> flt \<Rightarrow> flt" where
  "testDir stp s =
     (case getTerm1AndRootParam stp s of (term1, rootParam) \<Rightarrow>
        if fless rootParam (Fin 0) then NaN
        else
          let root = fsqrt rootParam;
              t1 = fsub term1 root;
              t2 = fadd term1 root
          in if fless term1 root
             then (if fless (time stp) t2 then t2 else NaN)
             else (if fless (time stp) t1 then t1
                   else (if fless (time stp) t2 then t2 else NaN)))"

text \<open>
  \<open>LinearDeltaStepper::_nextStep\<close>: sets the time and direction of the next step. Its
  locals \<open>negTime\<close> and \<open>posTime\<close> are the times at which a backward step (offset
  \<open>sTotal - 1\<close>) and a forward step (offset \<open>sTotal + 1\<close>) would occur.
\<close>

definition negTime :: "LinearDeltaStepper \<Rightarrow> flt" where
  "negTime stp = testDir stp (fmul (flt_of_int (sTotal stp - 1)) (MM_STEPS stp))"

definition posTime :: "LinearDeltaStepper \<Rightarrow> flt" where
  "posTime stp = testDir stp (fmul (flt_of_int (sTotal stp + 1)) (MM_STEPS stp))"

definition LinearDeltaStepper_nextStep :: "LinearDeltaStepper \<Rightarrow> LinearDeltaStepper" where
  "LinearDeltaStepper_nextStep stp =
     (if fless (negTime stp) (time stp) \<or> isnan (negTime stp) then
        (if fless (time stp) (posTime stp)
         then stp\<lparr>time := posTime stp, direction := StepForward, sTotal := sTotal stp + 1\<rparr>
         else stp\<lparr>time := NaN\<rparr>)
      else if fless (posTime stp) (time stp) \<or> isnan (posTime stp) then
        (if fless (time stp) (negTime stp)
         then stp\<lparr>time := negTime stp, direction := StepBackward, sTotal := sTotal stp - 1\<rparr>
         else stp\<lparr>time := NaN\<rparr>)
      else if fless (negTime stp) (posTime stp)
        then stp\<lparr>time := negTime stp, direction := StepBackward, sTotal := sTotal stp - 1\<rparr>
        else stp\<lparr>time := posTime stp, direction := StepForward, sTotal := sTotal stp + 1\<rparr>)"

text \<open>The time of a stepper is never negative: it is NaN or at least 0.\<close>

definition time_not_negative :: "LinearDeltaStepper \<Rightarrow> bool" where
  "time_not_negative stp = (isnan (time stp) \<or> fle (Fin 0) (time stp))"

text \<open>
  \<open>x\<close> is the smallest root of the quadratic with roots \<open>a - sqrt d\<close> and \<open>a + sqrt d\<close>
  that is strictly greater than \<open>t\<close>.
\<close>

definition is_smallest_root_after :: "real \<Rightarrow> real \<Rightarrow> real \<Rightarrow> real \<Rightarrow> bool" where
  "is_smallest_root_after t a d x =
     ((x = a - sqrt d \<or> x = a + sqrt d) \<and> t < x \<and>
      (\<forall>y\<in>{a - sqrt d, a + sqrt d}. t < y \<longrightarrow> x \<le> y))"

section \<open>The motion planner (motion/motionplanner.h)\<close>

datatype MotionType = MotionNone | MotionMove | MotionHome

text \<open>
  Modelled from the spec: \<open>Event\<close> (event.h) and \<open>stepDirToSigned\<close> (axisstepper.h) are
  not under src. An event names a stepper, a direction and a deadline
  ("event deadline = base_time + transformed"); a step changes the mechanical coordinate
  by +1 (forward) or -1 (backward). Deadlines are in seconds and keep the value type of
  the step time they are computed from. The null event \<open>Event()\<close> is \<open>None\<close>.
\<close>

type_synonym time_point = real

record Event =
  evt_time :: flt
  evt_stepperId :: nat
  evt_direction :: StepDirection

definition getEvent :: "nat \<Rightarrow> StepDirection \<Rightarrow> flt \<Rightarrow> Event" where
  "getEvent idx dir t = \<lparr>evt_time = t, evt_stepperId = idx, evt_direction = dir\<rparr>"

definition offset :: "time_point \<Rightarrow> Event \<Rightarrow> Event" where
  "offset base e = e\<lparr>evt_time := fadd (Fin base) (evt_time e)\<rparr>"

fun stepDirToSigned :: "StepDirection \<Rightarrow> int" where
  "stepDirToSigned StepForward = 1"
| "stepDirToSigned StepBackward = - 1"

text \<open>
  Modelled from the spec: \<open>AxisStepper::getNextTime\<close> (drivers/axisstepper.h) is not
  under src. "Find the axis with smallest peek_time() (ties broken by axis index)", where
  NaN means that the axis never steps again: the result is the position of the first
  stepper whose time is the least among those that are not NaN, and position 0 when every
  time is NaN.
\<close>

fun getNextTime_from :: "flt list \<Rightarrow> nat \<Rightarrow> nat \<Rightarrow> flt \<Rightarrow> nat" where
  "getNextTime_from [] k best bt = best"
| "getNextTime_from (t # ts) k best bt =
     (if fless t bt \<or> (isnan bt \<and> \<not> isnan t)
      then getNextTime_from ts (Suc k) k t
      else getNextTime_from ts (Suc k) best bt)"

definition getNextTime :: "flt list \<Rightarrow> nat" where
  "getNextTime ts = (case ts of [] \<Rightarrow> 0 | t # rest \<Rightarrow> getNextTime_from rest 1 0 t)"

text \<open>
  The template parameters of \<open>MotionPlanner\<close>: the coordinate map of \<open>Interface\<close>, the
  construction of the steppers of a segment, the step function of the homing steppers
  (which polls an endstop) and the acceleration profile with state \<open>'a\<close>. None of them
  is under src; the planner is verified for every choice of them. The tuple
  \<open>AxisStepperTypes\<close> of the moving steppers is a list of \<open>LinearDeltaStepper\<close>, the
  stepper under src, and the tuple of the homing steppers a list of \<open>AxisStepper\<close> with
  the step function of the interface. The array \<open>_destMechanicalPos\<close> is a list of
  integers; the source indexes it with the index of a stepper and checks no range (an
  index outside of the array has no defined behaviour there), so what is proved about
  the entry of a step assumes the index within the list.
\<close>

record 'a Interface =
  getHomePosition :: "int list \<Rightarrow> int list"
  xyzeFromMechanical :: "int list \<Rightarrow> flt \<times> flt \<times> flt \<times> flt"
  applyLeveling :: "flt \<times> flt \<times> flt \<Rightarrow> flt \<times> flt \<times> flt"
  bound :: "flt \<times> flt \<times> flt \<times> flt \<Rightarrow> flt \<times> flt \<times> flt \<times> flt"
  initAxisSteppers :: "int list \<Rightarrow> flt \<Rightarrow> flt \<Rightarrow> flt \<Rightarrow> flt \<Rightarrow> LinearDeltaStepper list"
  initAxisHomeSteppers :: "flt \<Rightarrow> AxisStepper list"
  homeStepper_nextStep :: "AxisStepper \<Rightarrow> AxisStepper"
  accel_begin :: "flt \<Rightarrow> flt \<Rightarrow> 'a \<Rightarrow> 'a"
  accel_transform :: "'a \<Rightarrow> flt \<Rightarrow> flt"

record 'a MotionPlanner =
  accel :: 'a
  destMechanicalPos :: "int list"
  iters :: "LinearDeltaStepper list"
  homeIters :: "AxisStepper list"
  baseTime :: time_point
  duration :: flt
  motionType :: MotionType

definition readyForNextMove :: "'a MotionPlanner \<Rightarrow> bool" where
  "readyForNextMove P = (motionType P = MotionNone)"

text \<open>
  \<open>MotionPlanner::_nextStep(s, isHoming)\<close>, where \<open>s\<close> is the stepper at position \<open>k\<close>
  of the homing steppers or of the moving steppers. The call of \<open>xyzeFromMechanical\<close> in
  the first branch only feeds the log and is left out.
\<close>

definition MotionPlanner_nextStep_at ::
  "'a Interface \<Rightarrow> nat \<Rightarrow> bool \<Rightarrow> 'a MotionPlanner \<Rightarrow> Event option \<times> 'a MotionPlanner" where
  "MotionPlanner_nextStep_at iface k isHoming P =
     (let s_time = (if isHoming then time (homeIters P ! k) else time (iters P ! k));
          s_index = (if isHoming then index (homeIters P ! k) else index (iters P ! k));
          s_direction = (if isHoming then direction (homeIters P ! k) else direction (iters P ! k))
      in if fless (duration P) s_time \<or> fle s_time (Fin 0) \<or> isnan s_time then
           (None,
            P\<lparr>destMechanicalPos :=
                 (if isHoming then getHomePosition iface (destMechanicalPos P)
                  else destMechanicalPos P),
              motionType := MotionNone\<rparr>)
         else
           let transformedTime = accel_transform iface (accel P) s_time;
               e = offset (baseTime P) (getEvent s_index s_direction transformedTime);
               pos = (destMechanicalPos P)
                       [s_index := destMechanicalPos P ! s_index + stepDirToSigned s_direction]
           in (Some e,
               if isHoming
               then P\<lparr>destMechanicalPos := pos,
                      homeIters := (homeIters P)[k := homeStepper_nextStep iface (homeIters P ! k)]\<rparr>
               else P\<lparr>destMechanicalPos := pos,
                      iters := (iters P)[k := LinearDeltaStepper_nextStep (iters P ! k)]\<rparr>))"

text \<open>\<open>MotionPlanner::nextStep\<close>.\<close>

definition MotionPlanner_nextStep ::
  "'a Interface \<Rightarrow> 'a MotionPlanner \<Rightarrow> Event option \<times> 'a MotionPlanner" where
  "MotionPlanner_nextStep iface P =
     (if motionType P = MotionNone then (None, P)
      else
        let isHoming = (motionType P = MotionHome)
        in if (isHoming \<and> homeIters P = []) \<or> (\<not> isHoming \<and> iters P = []) then (None, P)
           else if isHoming
             then MotionPlanner_nextStep_at iface (getNextTime (map time (homeIters P))) True P
             else MotionPlanner_nextStep_at iface (getNextTime (map time (iters P))) False P)"

text \<open>
  The local variables of \<open>MotionPlanner::moveTo\<close>, in the order of the source. \<open>cur\<close> is
  the current position \<open>(curX, curY, curZ, curE)\<close> and \<open>dest\<close> the destination
  \<open>(x, y, z, e)\<close> after levelling and bounding.
\<close>

definition moveTo_dist :: "flt \<times> flt \<times> flt \<times> flt \<Rightarrow> flt \<times> flt \<times> flt \<times> flt \<Rightarrow> flt" where
  "moveTo_dist cur dest =
     (case cur of (curX, curY, curZ, curE) \<Rightarrow> case dest of (x, y, z, e) \<Rightarrow>
        let distSq = fadd (fadd (fmul (fsub x curX) (fsub x curX))
                                (fmul (fsub y curY) (fsub y curY)))
                          (fmul (fsub z curZ) (fsub z curZ))
        in fsqrt distSq)"

text \<open>\<open>float minDuration = dist/maxVelXyz\<close>, the duration without acceleration.\<close>

definition moveTo_minDuration ::
  "flt \<times> flt \<times> flt \<times> flt \<Rightarrow> flt \<times> flt \<times> flt \<times> flt \<Rightarrow> flt \<Rightarrow> flt" where
  "moveTo_minDuration cur dest maxVelXyz = fdiv (moveTo_dist cur dest) maxVelXyz"

text \<open>\<open>float velE = (e-curE)/minDuration\<close>, before it is clamped.\<close>

definition moveTo_velE ::
  "flt \<times> flt \<times> flt \<times> flt \<Rightarrow> flt \<times> flt \<times> flt \<times> flt \<Rightarrow> flt \<Rightarrow> flt" where
  "moveTo_velE cur dest maxVelXyz =
     fdiv (fsub (snd (snd (snd dest))) (snd (snd (snd cur)))) (moveTo_minDuration cur dest maxVelXyz)"

record MoveLocals =
  mv_velE :: flt
  mv_minDuration :: flt
  mv_maxVelXyz :: flt
  mv_vx :: flt
  mv_vy :: flt
  mv_vz :: flt

definition moveTo_locals ::
  "flt \<times> flt \<times> flt \<times> flt \<Rightarrow> flt \<times> flt \<times> flt \<times> flt \<Rightarrow> flt \<Rightarrow> flt \<Rightarrow> flt \<Rightarrow> MoveLocals" where
  "moveTo_locals cur dest maxVelXyz minVelE maxVelE =
     (case cur of (curX, curY, curZ, curE) \<Rightarrow> case dest of (x, y, z, e) \<Rightarrow>
        let dist = moveTo_dist cur dest;
            minDuration = moveTo_minDuration cur dest maxVelXyz;
            velE = moveTo_velE cur dest maxVelXyz;
            newVelE = std_max minVelE (std_min maxVelE velE);
            changed = (\<not> feq velE newVelE);
            velE = (if changed then newVelE else velE);
            minDuration = (if changed then fdiv (fsub e curE) newVelE else minDuration);
            maxVelXyz = (if changed then fdiv dist minDuration else maxVelXyz)
        in \<lparr>mv_velE = velE, mv_minDuration = minDuration, mv_maxVelXyz = maxVelXyz,
            mv_vx = fdiv (fsub x curX) minDuration,
            mv_vy = fdiv (fsub y curY) minDuration,
            mv_vz = fdiv (fsub z curZ) minDuration\<rparr>)"

text \<open>\<open>MotionPlanner::moveTo\<close>.\<close>

definition MotionPlanner_moveTo ::
  "'a Interface \<Rightarrow> time_point \<Rightarrow> flt \<Rightarrow> flt \<Rightarrow> flt \<Rightarrow> flt \<Rightarrow> flt \<Rightarrow> flt \<Rightarrow> flt \<Rightarrow>
   'a MotionPlanner \<Rightarrow> 'a MotionPlanner" where
  "MotionPlanner_moveTo iface base x y z e maxVelXyz minVelE maxVelE P =
     (if iters P = [] then P
      else
        let cur = xyzeFromMechanical iface (destMechanicalPos P);
            lev = applyLeveling iface (x, y, z);
            dest = bound iface (fst lev, fst (snd lev), snd (snd lev), e);
            m = moveTo_locals cur dest maxVelXyz minVelE maxVelE
        in P\<lparr>baseTime := base,
              iters := initAxisSteppers iface (destMechanicalPos P)
                         (mv_vx m) (mv_vy m) (mv_vz m) (mv_velE m),
              duration := mv_minDuration m,
              motionType := MotionMove,
              accel := accel_begin iface (mv_minDuration m) (mv_maxVelXyz m) (accel P)\<rparr>)"

text \<open>\<open>MotionPlanner::homeEndstops\<close>.\<close>

definition MotionPlanner_homeEndstops ::
  "'a Interface \<Rightarrow> time_point \<Rightarrow> flt \<Rightarrow> 'a MotionPlanner \<Rightarrow> 'a MotionPlanner" where
  "MotionPlanner_homeEndstops iface base maxVelXyz P =
     (if homeIters P = [] then P
      else P\<lparr>homeIters := initAxisHomeSteppers iface maxVelXyz,
             baseTime := base,
             duration := NaN,
             motionType := MotionHome,
             accel := accel_begin iface NaN maxVelXyz (accel P)\<rparr>)"

text \<open>
  The events of the first \<open>n\<close> calls of \<open>nextStep\<close>, up to the first null event: the
  sequence that the caller of the planner pulls for one segment.
\<close>

fun nextStep_events :: "'a Interface \<Rightarrow> nat \<Rightarrow> 'a MotionPlanner \<Rightarrow> Event list" where
  "nextStep_events iface 0 P = []"
| "nextStep_events iface (Suc n) P =
     (case MotionPlanner_nextStep iface P of
        (None, P') \<Rightarrow> []
      | (Some e, P') \<Rightarrow> e # nextStep_events iface n P')"

text \<open>The time of the stepper that \<open>nextStep\<close> selects.\<close>

definition selected_time :: "'a MotionPlanner \<Rightarrow> flt" where
  "selected_time P =
     (if motionType P = MotionHome
      then time (homeIters P ! getNextTime (map time (homeIters P)))
      else time (iters P ! getNextTime (map time (iters P))))"

section \<open>The interpreter of commands (state.h)\<close>

datatype PositionMode = POS_ABSOLUTE | POS_RELATIVE

datatype LengthUnit = UNIT_MM | UNIT_IN

text \<open>
  Modelled from the spec: \<open>Vector4f\<close> (common/vector4.h), \<open>mathutil::MM_PER_IN\<close>
  (common/mathutil.h), \<open>Command\<close> and \<open>Response\<close> (gparse) are not under src. A
  \<open>Vector4f\<close> is a position (x, y, z, e) with the componentwise sum and difference and
  the product with a scalar; an inch is 25.4 mm; a command is an opcode with the
  parameters it carries, and \<open>isG0\<close>, \<open>isG1\<close>, ... compare the opcode with the verbs of
  the table of recognised G-code (\<open>isTxxx\<close>: the opcode starts with T); a response is
  \<open>ok\<close>, possibly with key-value pairs.
\<close>

datatype Vector4f = Vector4f (vec_x: flt) (vec_y: flt) (vec_z: flt) (vec_e: flt)

definition vec_add :: "Vector4f \<Rightarrow> Vector4f \<Rightarrow> Vector4f" where
  "vec_add a b = Vector4f (fadd (vec_x a) (vec_x b)) (fadd (vec_y a) (vec_y b))
                          (fadd (vec_z a) (vec_z b)) (fadd (vec_e a) (vec_e b))"

definition vec_sub :: "Vector4f \<Rightarrow> Vector4f \<Rightarrow> Vector4f" where
  "vec_sub a b = Vector4f (fsub (vec_x a) (vec_x b)) (fsub (vec_y a) (vec_y b))
                          (fsub (vec_z a) (vec_z b)) (fsub (vec_e a) (vec_e b))"

definition vec_scale :: "Vector4f \<Rightarrow> flt \<Rightarrow> Vector4f" where
  "vec_scale a k = Vector4f (fmul (vec_x a) k) (fmul (vec_y a) k)
                            (fmul (vec_z a) k) (fmul (vec_e a) k)"

definition MM_PER_IN :: flt where
  "MM_PER_IN = Fin (254 / 10)"

record Command =
  cmd_opcode :: string
  cmd_params :: "char \<Rightarrow> flt option"
  cmd_specialString :: string

definition hasParam :: "Command \<Rightarrow> char \<Rightarrow> bool" where
  "hasParam cmd c = (cmd_params cmd c \<noteq> None)"

definition getParam :: "Command \<Rightarrow> char \<Rightarrow> flt \<Rightarrow> flt" where
  "getParam cmd c dflt = (case cmd_params cmd c of Some v \<Rightarrow> v | None \<Rightarrow> dflt)"

definition hasAnyXYZEParam :: "Command \<Rightarrow> bool" where
  "hasAnyXYZEParam cmd =
     (hasParam cmd CHR ''X'' \<or> hasParam cmd CHR ''Y'' \<or> hasParam cmd CHR ''Z'' \<or> hasParam cmd CHR ''E'')"

definition isOp :: "string \<Rightarrow> Command \<Rightarrow> bool" where
  "isOp verb cmd = (cmd_opcode cmd = verb)"

definition isTxxx :: "Command \<Rightarrow> bool" where
  "isTxxx cmd = (case cmd_opcode cmd of [] \<Rightarrow> False | c # rest \<Rightarrow> c = CHR ''T'')"

datatype Response = Ok | OkWith "(string \<times> string) list"

text \<open>
  What \<open>execute\<close> and \<open>onIdleCpu\<close> do to their collaborators (the IO drivers, the
  scheduler, the log levels) is recorded in order; how it ends is an \<open>Outcome\<close>: it returns, it throws
  \<open>std::runtime_error\<close> with a message, or it ends the process with \<open>exit\<close>.
\<close>

datatype Effect =
    LockAllAxis | UnlockAllAxis
  | SetHotendTemp flt | SetBedTemp flt | SetFanRate flt
  | SetLogBitfield flt
  | SetDefaultMaxSleep | SetMaxSleepOneMillisecond
  | ConsumeIoDriverEvent | ExitEventLoop

datatype Outcome = Returned | Threw string | Exited int

text \<open>
  The members of \<open>State\<close> that \<open>execute\<close>, the queueing of moves and \<open>onIdleCpu\<close> use.
  The planner \<open>_motionPlanner\<close> that state.h drives (\<open>moveTo\<close> with motion flags,
  \<open>arcTo\<close>, \<open>peekNextEvent\<close>, \<open>consumeNextEvent\<close>) is a later revision of the one in
  motion/motionplanner.h and is not under src: its state is the type parameter \<open>'a\<close>
  and its members are parameters (see \<open>Drv\<close> below).
\<close>

record 'a State =
  doShutdownAfterMoveCompletes :: bool
  doExitEventLoopAfterMoveCompletes :: bool
  doBufferMoves :: bool
  positionMode :: PositionMode
  extruderPosMode :: PositionMode
  unitMode :: LengthUnit
  destMm :: Vector4f
  destMoveRatePrimitive :: flt
  hostZeroOffset :: Vector4f
  isHoming :: bool
  isHomed :: bool
  isWaitingForHotend :: bool
  lastMotionPlannedTime :: time_point
  gcodeFileStack :: "string list"
  motionPlanner :: 'a
  effects :: "Effect list"

text \<open>What \<open>execute\<close> reads from outside: the clock and the temperatures.\<close>

record Env =
  env_now :: time_point
  env_hotendTemp :: flt
  env_hotendTargetTemp :: flt
  env_bedTemp :: flt

text \<open>
  The machine \<open>Drv\<close> and the members of the planner, of its events, of the coordinate
  map, of the file system and of the command that are not under src. The planner of
  state.h has the state \<open>'a\<close> and emits events of the type \<open>'e\<close> (\<open>OutputEvent\<close>), of
  which only \<open>time()\<close> is read; \<open>None\<close> is the null event. The motion flags are a bit
  field whose values are not under src. The homing routine of the coordinate map drives
  the whole state through blocking moves. \<open>absentParam\<close> is the value that a getter of
  the command returns for an absent parameter.
\<close>

type_synonym MotionFlags = nat

record ('a, 'e) Drv =
  clampMoveRate :: "flt \<Rightarrow> flt"
  maxRetractRate :: flt
  maxExtrudeRate :: flt
  MOTIONFLAGS_DEFAULT :: MotionFlags
  planner_readyForNextMove :: "'a \<Rightarrow> bool"
  doHomeBeforeFirstMovement :: bool
  planner_moveTo :: "time_point \<Rightarrow> Vector4f \<Rightarrow> flt \<Rightarrow> flt \<Rightarrow> flt \<Rightarrow> MotionFlags \<Rightarrow> 'a \<Rightarrow> 'a"
  planner_arcTo :: "time_point \<Rightarrow> Vector4f \<Rightarrow> flt \<times> flt \<times> flt \<Rightarrow> flt \<Rightarrow> flt \<Rightarrow> flt \<Rightarrow> bool
                    \<Rightarrow> 'a \<Rightarrow> 'a"
  planner_peekNextEvent :: "'a \<Rightarrow> 'e option"
  planner_consumeNextEvent :: "'a \<Rightarrow> 'a"
  event_time :: "'e \<Rightarrow> time_point"
  executeHomeRoutine :: "'a State \<Rightarrow> 'a State"
  relGcodePathToAbs :: "string \<Rightarrow> string"
  to_string :: "flt \<Rightarrow> string"
  absentParam :: flt

definition setMoveBuffering :: "bool \<Rightarrow> 'a State \<Rightarrow> 'a State" where
  "setMoveBuffering b S =
     S\<lparr>doBufferMoves := b,
       effects := effects S @ [if b then SetDefaultMaxSleep else SetMaxSleepOneMillisecond]\<rparr>"

definition coordToAbsolute :: "'a State \<Rightarrow> Vector4f \<Rightarrow> Vector4f" where
  "coordToAbsolute S posUnit =
     (case positionMode S of
        POS_RELATIVE \<Rightarrow> vec_add posUnit (destMm S)
      | POS_ABSOLUTE \<Rightarrow> posUnit)"

definition coordToMm :: "'a State \<Rightarrow> Vector4f \<Rightarrow> Vector4f" where
  "coordToMm S coord =
     (case unitMode S of
        UNIT_IN \<Rightarrow> vec_scale coord MM_PER_IN
      | UNIT_MM \<Rightarrow> coord)"

definition coordToPrimitive :: "'a State \<Rightarrow> Vector4f \<Rightarrow> Vector4f" where
  "coordToPrimitive S coord = vec_add (coordToMm S (coordToAbsolute S coord)) (hostZeroOffset S)"

definition fUnitToPrimitive :: "'a State \<Rightarrow> flt \<Rightarrow> flt" where
  "fUnitToPrimitive S posUnit =
     vec_x (coordToMm S (Vector4f (fdiv posUnit (Fin 60)) (Fin 0) (Fin 0) (Fin 0)))"

definition setDestMoveRatePrimitive :: "('a, 'e) Drv \<Rightarrow> flt \<Rightarrow> 'a State \<Rightarrow> 'a State" where
  "setDestMoveRatePrimitive drv f S = S\<lparr>destMoveRatePrimitive := clampMoveRate drv f\<rparr>"

definition setHostZeroPos :: "flt \<Rightarrow> flt \<Rightarrow> flt \<Rightarrow> flt \<Rightarrow> 'a State \<Rightarrow> 'a State" where
  "setHostZeroPos x y z e S = S\<lparr>hostZeroOffset := vec_sub (destMm S) (Vector4f x y z e)\<rparr>"

text \<open>
  \<open>State::queueArc\<close> and \<open>State::queueMovement\<close>. \<open>velXyz\<close> is the optional argument,
  \<open>None\<close> when it is not present.
\<close>

definition queueArc ::
  "('a, 'e) Drv \<Rightarrow> Env \<Rightarrow> Vector4f \<Rightarrow> flt \<times> flt \<times> flt \<Rightarrow> bool \<Rightarrow> 'a State \<Rightarrow> 'a State" where
  "queueArc drv env dest center isCW S =
     (let velXyz = destMoveRatePrimitive S;
          minExtRate = fneg (maxRetractRate drv);
          maxExtRate = maxExtrudeRate drv;
          startTime = max (lastMotionPlannedTime S) (env_now env)
      in S\<lparr>destMm := dest,
            motionPlanner := planner_arcTo drv startTime dest center velXyz minExtRate maxExtRate
                               isCW (motionPlanner S)\<rparr>)"

definition queueMovement ::
  "('a, 'e) Drv \<Rightarrow> Env \<Rightarrow> Vector4f \<Rightarrow> flt option \<Rightarrow> MotionFlags \<Rightarrow> 'a State \<Rightarrow> 'a State" where
  "queueMovement drv env dest velXyz flags S =
     (let minExtRate = fneg (maxRetractRate drv);
          maxExtRate = maxExtrudeRate drv;
          startTime = max (lastMotionPlannedTime S) (env_now env)
      in S\<lparr>destMm := dest,
            motionPlanner :=
              planner_moveTo drv startTime dest
                (case velXyz of Some v \<Rightarrow> v | None \<Rightarrow> destMoveRatePrimitive S)
                minExtRate maxExtRate flags (motionPlanner S)\<rparr>)"

definition homeEndstops :: "('a, 'e) Drv \<Rightarrow> 'a State \<Rightarrow> 'a State" where
  "homeEndstops drv S =
     (let restoreMoveBuffering = doBufferMoves S;
          S1 = setMoveBuffering False (S\<lparr>isHoming := True\<rparr>);
          S2 = executeHomeRoutine drv S1;
          S3 = setMoveBuffering restoreMoveBuffering S2
      in S3\<lparr>isHomed := True, isHoming := False\<rparr>)"

definition isHotendReady :: "Env \<Rightarrow> 'a State \<Rightarrow> bool \<times> 'a State" where
  "isHotendReady env S =
     (let S' = (if isWaitingForHotend S
                then S\<lparr>isWaitingForHotend := fless (env_hotendTemp env) (env_hotendTargetTemp env)\<rparr>
                else S)
      in (\<not> isWaitingForHotend S', S'))"

text \<open>The destination of a G0, G1, G2 or G3 command: \<open>trueDest\<close> of \<open>execute\<close>.\<close>

definition trueDest :: "('a, 'e) Drv \<Rightarrow> Command \<Rightarrow> 'a State \<Rightarrow> Vector4f" where
  "trueDest drv cmd S =
     (let cur = destMm S;
          cmdDest = coordToPrimitive S
            (Vector4f (getParam cmd CHR ''X'' (absentParam drv)) (getParam cmd CHR ''Y'' (absentParam drv))
                      (getParam cmd CHR ''Z'' (absentParam drv)) (getParam cmd CHR ''E'' (absentParam drv)))
      in Vector4f (if hasParam cmd CHR ''X'' then vec_x cmdDest else vec_x cur)
                  (if hasParam cmd CHR ''Y'' then vec_y cmdDest else vec_y cur)
                  (if hasParam cmd CHR ''Z'' then vec_z cmdDest else vec_z cur)
                  (if hasParam cmd CHR ''E'' then vec_e cmdDest else vec_e cur))"

text \<open>
  The checks that open the branches of G0/G1, G2/G3 and G28: \<open>None\<close> when \<open>execute\<close>
  returns at once without a reply, the state after \<open>isHotendReady\<close> otherwise.
\<close>

definition moveGuards :: "('a, 'e) Drv \<Rightarrow> Env \<Rightarrow> 'a State \<Rightarrow> 'a State option" where
  "moveGuards drv env S =
     (if \<not> planner_readyForNextMove drv (motionPlanner S) then None
      else case isHotendReady env S of (ready, S1) \<Rightarrow>
        if \<not> ready then None
        else if isHoming S1 then None
        else Some S1)"

text \<open>
  The state that \<open>moveGuards\<close> leaves behind when it refuses: \<open>isHotendReady\<close> has run
  if the planner was ready.
\<close>

definition moveGuards_refused :: "('a, 'e) Drv \<Rightarrow> Env \<Rightarrow> 'a State \<Rightarrow> 'a State" where
  "moveGuards_refused drv env S =
     (if \<not> planner_readyForNextMove drv (motionPlanner S) then S
      else snd (isHotendReady env S))"

definition execute_G0_G1 :: "('a, 'e) Drv \<Rightarrow> Env \<Rightarrow> Command \<Rightarrow> 'a State \<Rightarrow> Outcome \<times> 'a State \<times> Response list" where
  "execute_G0_G1 drv env cmd S =
     (case moveGuards drv env S of
        None \<Rightarrow> (Returned, moveGuards_refused drv env S, [])
      | Some S1 \<Rightarrow>
          let S2 = (if \<not> isHomed S1 \<and> doHomeBeforeFirstMovement drv then homeEndstops drv S1 else S1);
              dest = trueDest drv cmd S2;
              S3 = (if hasParam cmd CHR ''F''
                    then setDestMoveRatePrimitive drv
                           (fUnitToPrimitive S2 (getParam cmd CHR ''F'' (absentParam drv))) S2
                    else S2)
          in (Returned, queueMovement drv env dest None (MOTIONFLAGS_DEFAULT drv) S3, [Ok]))"

definition execute_G2_G3 :: "('a, 'e) Drv \<Rightarrow> Env \<Rightarrow> Command \<Rightarrow> 'a State \<Rightarrow> Outcome \<times> 'a State \<times> Response list" where
  "execute_G2_G3 drv env cmd S =
     (case moveGuards drv env S of
        None \<Rightarrow> (Returned, moveGuards_refused drv env S, [])
      | Some S1 \<Rightarrow>
          let S2 = (if \<not> isHomed S1 \<and> doHomeBeforeFirstMovement drv then homeEndstops drv S1 else S1);
              curZ = vec_z (destMm S2);
              dest = trueDest drv cmd S2;
              S3 = (if hasParam cmd CHR ''F''
                    then setDestMoveRatePrimitive drv
                           (fUnitToPrimitive S2 (getParam cmd CHR ''F'' (absentParam drv))) S2
                    else S2);
              c = coordToPrimitive S3
                    (Vector4f (getParam cmd CHR ''I'' (absentParam drv))
                              (getParam cmd CHR ''J'' (absentParam drv))
                              (getParam cmd CHR ''K'' (absentParam drv)) (Fin 0));
              center = (vec_x c, vec_y c, if hasParam cmd CHR ''K'' then vec_z c else curZ)
          in (Returned, queueArc drv env dest center (isOp ''G2'' cmd) S3, [Ok]))"

definition execute_G28 :: "('a, 'e) Drv \<Rightarrow> Env \<Rightarrow> 'a State \<Rightarrow> Outcome \<times> 'a State \<times> Response list" where
  "execute_G28 drv env S =
     (case moveGuards drv env S of
        None \<Rightarrow> (Returned, moveGuards_refused drv env S, [])
      | Some S1 \<Rightarrow> (Returned, homeEndstops drv S1, [Ok]))"

definition execute_G92 :: "('a, 'e) Drv \<Rightarrow> Command \<Rightarrow> 'a State \<Rightarrow> Outcome \<times> 'a State \<times> Response list" where
  "execute_G92 drv cmd S =
     (if \<not> hasAnyXYZEParam cmd
      then (Returned, setHostZeroPos (Fin 0) (Fin 0) (Fin 0) (Fin 0) S, [Ok])
      else
        let cmdPosMm = coordToMm S
              (Vector4f (getParam cmd CHR ''X'' (absentParam drv)) (getParam cmd CHR ''Y'' (absentParam drv))
                        (getParam cmd CHR ''Z'' (absentParam drv)) (getParam cmd CHR ''E'' (absentParam drv)));
            curZeroPos = vec_sub (destMm S) (hostZeroOffset S);
            actualX = (if hasParam cmd CHR ''X'' then vec_x cmdPosMm else vec_x curZeroPos);
            actualY = (if hasParam cmd CHR ''Y'' then vec_y cmdPosMm else vec_y curZeroPos);
            actualZ = (if hasParam cmd CHR ''Z'' then vec_z cmdPosMm else vec_z curZeroPos);
            actualE = (if hasParam cmd CHR ''E'' then vec_e cmdPosMm else vec_e curZeroPos)
        in (Returned, setHostZeroPos actualX actualY actualZ actualE S, [Ok]))"

definition addEffect :: "Effect \<Rightarrow> 'a State \<Rightarrow> 'a State" where
  "addEffect f S = S\<lparr>effects := effects S @ [f]\<rparr>"

text \<open>\<open>State::execute\<close>; the calls of \<open>reply\<close> are the list of responses, in order.\<close>

definition execute :: "('a, 'e) Drv \<Rightarrow> Env \<Rightarrow> Command \<Rightarrow> 'a State \<Rightarrow> Outcome \<times> 'a State \<times> Response list" where
  "execute drv env cmd S =
     (if isOp ''G0'' cmd \<or> isOp ''G1'' cmd then execute_G0_G1 drv env cmd S
      else if isOp ''G2'' cmd \<or> isOp ''G3'' cmd then execute_G2_G3 drv env cmd S
      else if isOp ''G20'' cmd then (Returned, S\<lparr>unitMode := UNIT_IN\<rparr>, [Ok])
      else if isOp ''G21'' cmd then (Returned, S\<lparr>unitMode := UNIT_MM\<rparr>, [Ok])
      else if isOp ''G28'' cmd then execute_G28 drv env S
      else if isOp ''G90'' cmd
        then (Returned, S\<lparr>positionMode := POS_ABSOLUTE, extruderPosMode := POS_ABSOLUTE\<rparr>, [Ok])
      else if isOp ''G91'' cmd
        then (Returned, S\<lparr>positionMode := POS_RELATIVE, extruderPosMode := POS_RELATIVE\<rparr>, [Ok])
      else if isOp ''G92'' cmd then execute_G92 drv cmd S
      else if isOp ''M0'' cmd then (Returned, S\<lparr>doShutdownAfterMoveCompletes := True\<rparr>, [Ok])
      else if isOp ''M17'' cmd then (Returned, addEffect LockAllAxis S, [Ok])
      else if isOp ''M18'' cmd then (Returned, addEffect UnlockAllAxis S, [Ok])
      else if isOp ''M21'' cmd then (Returned, S, [Ok])
      else if isOp ''M22'' cmd then (Returned, S, [Ok])
      else if isOp ''M32'' cmd
        then (Returned,
              S\<lparr>gcodeFileStack := gcodeFileStack S @ [relGcodePathToAbs drv (cmd_specialString cmd)]\<rparr>,
              [Ok])
      else if isOp ''M82'' cmd then (Returned, S\<lparr>extruderPosMode := POS_ABSOLUTE\<rparr>, [Ok])
      else if isOp ''M83'' cmd then (Returned, S\<lparr>extruderPosMode := POS_RELATIVE\<rparr>, [Ok])
      else if isOp ''M84'' cmd then (Returned, addEffect UnlockAllAxis S, [Ok])
      else if isOp ''M99'' cmd
        then (if gcodeFileStack S = []
              then (Returned, S\<lparr>doShutdownAfterMoveCompletes := True\<rparr>, [Ok])
              else (Returned, S\<lparr>gcodeFileStack := butlast (gcodeFileStack S)\<rparr>, [Ok]))
      else if isOp ''M104'' cmd
        then (Returned,
              (if hasParam cmd CHR ''S''
               then addEffect (SetHotendTemp (getParam cmd CHR ''S'' (absentParam drv))) S else S),
              [Ok])
      else if isOp ''M105'' cmd
        then (Returned, S,
              [OkWith [(''T'', to_string drv (env_hotendTemp env)),
                       (''B'', to_string drv (env_bedTemp env))]])
      else if isOp ''M106'' cmd
        then (let s = getParam cmd CHR ''S'' (Fin 1);
                  s = (if fless (Fin 1) s then fdiv s (Fin 256) else s)
              in (Returned, addEffect (SetFanRate s) S, [Ok]))
      else if isOp ''M107'' cmd then (Returned, addEffect (SetFanRate (Fin 0)) S, [Ok])
      else if isOp ''M109'' cmd
        then (Returned,
              (if hasParam cmd CHR ''S''
               then addEffect (SetHotendTemp (getParam cmd CHR ''S'' (absentParam drv))) S else S)
                \<lparr>isWaitingForHotend := True\<rparr>,
              [Ok])
      else if isOp ''M110'' cmd then (Returned, S, [Ok])
      else if isOp ''M111'' cmd
        then (Returned, addEffect (SetLogBitfield (getParam cmd CHR ''S'' (absentParam drv))) S, [Ok])
      else if isOp ''M112'' cmd then (Exited 1, S, [Ok])
      else if isOp ''M115'' cmd
        then (Returned, S,
              [OkWith [(''FIRMWARE_NAME'', ''printipi''),
                       (''FIRMWARE_URL'', ''githum.com/Wallacoloo/printipi'')]])
      else if isOp ''M116'' cmd then (Returned, S\<lparr>isWaitingForHotend := True\<rparr>, [Ok])
      else if isOp ''M117'' cmd then (Returned, S, [Ok])
      else if isOp ''M140'' cmd
        then (Returned,
              (if hasParam cmd CHR ''S''
               then addEffect (SetBedTemp (getParam cmd CHR ''S'' (absentParam drv))) S else S),
              [Ok])
      else if isTxxx cmd then (Returned, S, [Ok])
      else (Threw (''unrecognized gcode opcode: '' @ [CHR 0x27] @ cmd_opcode cmd @ [CHR 0x27]), S, []))"

text \<open>
  What \<open>onIdleCpu\<close> reads from outside, besides the clock: whether the scheduler has
  room in its buffer, at the first test and after an event was queued, and the next
  event of the IO drivers (\<open>tuplePeekNextEvent\<close>).
\<close>

record 'e IdleEnv = Env +
  env_isRoomInBuffer :: bool
  env_isRoomInBufferAfterQueue :: bool
  env_ioDriverEvt :: "'e option"

text \<open>The calls of \<open>scheduler.queue\<close>: an event of the IO drivers or of the planner.\<close>

datatype 'e Queued = QueuedIoDriverEvent 'e | QueuedMotionEvent 'e

text \<open>
  The first block of \<open>State::onIdleCpu\<close>, which hands the next event to the scheduler.
  It holds the only assignment to \<open>_lastMotionPlannedTime\<close> outside the constructor. The
  result is the event queued, if any, \<open>motionNeedsCpu\<close>, whether \<open>onIdleCpu\<close> returns
  at once (after \<open>exitEventLoop\<close>), and the state. What \<open>onIdleCpu\<close> does after this
  block, unless it has returned, is to tend the communication channels (\<open>execute\<close> on
  the commands read) and to call the handlers of the IO drivers.
\<close>

definition onIdleCpu_schedule ::
  "('a, 'e) Drv \<Rightarrow> 'e IdleEnv \<Rightarrow> 'a State \<Rightarrow> 'e Queued option \<times> bool \<times> bool \<times> 'a State" where
  "onIdleCpu_schedule drv env S =
     (if \<not> env_isRoomInBuffer env then (None, False, False, S)
      else
        let ioDriverEvt = env_ioDriverEvt env;
            motionEvt = planner_peekNextEvent drv (motionPlanner S);
            doServiceIoDriver =
              (case ioDriverEvt of
                 None \<Rightarrow> False
               | Some io \<Rightarrow>
                   (case motionEvt of
                      None \<Rightarrow> True
                    | Some m \<Rightarrow> event_time drv io \<le> event_time drv m));
            serviced =
              (if doServiceIoDriver
               then (map_option QueuedIoDriverEvent ioDriverEvt, False,
                     S\<lparr>effects := effects S @ [ConsumeIoDriverEvent]\<rparr>)
               else if doBufferMoves S \<or> lastMotionPlannedTime S \<le> env_now env
               then (case motionEvt of
                       None \<Rightarrow> (None, False, S)
                     | Some m \<Rightarrow>
                         (Some (QueuedMotionEvent m), env_isRoomInBufferAfterQueue env,
                          S\<lparr>motionPlanner := planner_consumeNextEvent drv (motionPlanner S),
                            lastMotionPlannedTime := event_time drv m\<rparr>))
               else (None, False, S))
        in case serviced of (queued, motionNeedsCpu, S1) \<Rightarrow>
             if planner_peekNextEvent drv (motionPlanner S1) = None
                \<and> (doShutdownAfterMoveCompletes S1 \<or> doExitEventLoopAfterMoveCompletes S1)
                \<and> \<not> motionNeedsCpu
             then (queued, motionNeedsCpu, True,
                   S1\<lparr>doExitEventLoopAfterMoveCompletes := False,
                      effects := effects S1 @ [ExitEventLoop]\<rparr>)
             else (queued, motionNeedsCpu, False, S1))"

text \<open>
  The motion events that successive calls of \<open>onIdleCpu\<close> hand to the scheduler, in
  order, with the state they leave.
\<close>

fun motion_event :: "'e Queued option \<Rightarrow> 'e list" where
  "motion_event (Some (QueuedMotionEvent m)) = [m]"
| "motion_event _ = []"

fun idle_run :: "('a, 'e) Drv \<Rightarrow> 'e IdleEnv list \<Rightarrow> 'a State \<Rightarrow> 'e list \<times> 'a State" where
  "idle_run drv [] S = ([], S)"
| "idle_run drv (env # envs) S =
     (case onIdleCpu_schedule drv env S of (queued, motionNeedsCpu, returned, S1) \<Rightarrow>
        case idle_run drv envs S1 of (evs, S2) \<Rightarrow> (motion_event queued @ evs, S2))"

text \<open>
  The events that the planner holds: what \<open>peekNextEvent\<close> and \<open>consumeNextEvent\<close>
  yield in at most \<open>n\<close> rounds.
\<close>

fun planner_events :: "('a, 'e) Drv \<Rightarrow> nat \<Rightarrow> 'a \<Rightarrow> 'e list" where
  "planner_events drv 0 P = []"
| "planner_events drv (Suc n) P =
     (case planner_peekNextEvent drv P of
        None \<Rightarrow> []
      | Some e \<Rightarrow> e # planner_events drv n (planner_consumeNextEvent drv P))"

text \<open>
  The assumption on the planner: it emits no event of a segment before the start time
  that the segment was given.
\<close>

definition events_from :: "('a, 'e) Drv \<Rightarrow> time_point \<Rightarrow> 'a \<Rightarrow> bool" where
  "events_from drv start P = (\<forall>n. \<forall>e\<in>set (planner_events drv n P). start \<le> event_time drv e)"

text \<open>
  The verbs that \<open>execute\<close> has a branch for, in the order of its tests.
\<close>

definition supported_verbs :: "string list" where
  "supported_verbs =
     [''G0'', ''G1'', ''G2'', ''G3'', ''G20'', ''G21'', ''G28'', ''G90'', ''G91'', ''G92'',
      ''M0'', ''M17'', ''M18'', ''M21'', ''M22'', ''M32'', ''M82'', ''M83'', ''M84'', ''M99'',
      ''M104'', ''M105'', ''M106'', ''M107'', ''M109'', ''M110'', ''M111'', ''M112'', ''M115'',
      ''M116'', ''M117'', ''M140'']"

definition supported :: "Command \<Rightarrow> bool" where
  "supported cmd = (cmd_opcode cmd \<in> set supported_verbs \<or> isTxxx cmd)"

text \<open>
  The composition in the words of the specification: a parameter is (a) interpreted in
  the current unit mode, (b) offset by the host-zero origin, (c) made absolute by adding
  the current destination if in relative mode.
\<close>

definition spec_coordToPrimitive :: "'a State \<Rightarrow> Vector4f \<Rightarrow> Vector4f" where
  "spec_coordToPrimitive S coord =
     (let a = coordToMm S coord;
          b = vec_add a (hostZeroOffset S)
      in case positionMode S of
           POS_RELATIVE \<Rightarrow> vec_add b (destMm S)
         | POS_ABSOLUTE \<Rightarrow> b)"

text \<open>
  \<open>least_at m ts\<close>: \<open>m\<close> is a least time of \<open>ts\<close>, where NaN counts as "never" and is
  least only when every time is NaN.
\<close>

definition least_at :: "flt \<Rightarrow> flt list \<Rightarrow> bool" where
  "least_at m ts = ((isnan m \<longrightarrow> (\<forall>t\<in>set ts. isnan t)) \<and> (\<forall>t\<in>set ts. isnan t \<or> fle m t))"



section \<open>A concrete machine\<close>

text \<open>
  Values at which the theorems below are evaluated: a coordinate map with one step per
  millimetre, no levelling, no bounds and the profile \<open>NoAcceleration\<close> (the identity
  transform) and one axis; the stepper of a tower of a delta machine (rod length 5,
  radius 3, the effector on the axis of the machine and 4 mm below the carriage) as its
  constructor leaves it for a move along z at 1 mm/s, upwards and downwards, and a
  stepper whose \<open>rootParam\<close> is negative at both offsets, so that it has no step at all;
  a planner in the middle of the upward move and a planner that is homing.
\<close>

definition example_stepper :: LinearDeltaStepper where
  "example_stepper =
     \<lparr>index = 0, time = Fin 0, direction = StepBackward,
      stepper_r = Fin 3, stepper_L = Fin 5, MM_STEPS = Fin 1, M0 = Fin 4, sTotal = 0,
      inv_v2 = Fin 1, vz_over_v2 = Fin 1, almostTerm1 = Fin 4,
      almostRootParam = Fin 0, almostRootParamV2S = Fin 8\<rparr>"

definition example_stepper_down :: LinearDeltaStepper where
  "example_stepper_down = example_stepper\<lparr>vz_over_v2 := Fin (- 1), almostTerm1 := Fin (- 4)\<rparr>"

definition example_stepper_done :: LinearDeltaStepper where
  "example_stepper_done = example_stepper\<lparr>almostRootParam := Fin (- 100)\<rparr>"

definition example_interface :: "unit Interface" where
  "example_interface =
     \<lparr>getHomePosition = (\<lambda>pos. [0, 0, 0, pos ! 3]),
      xyzeFromMechanical = (\<lambda>pos. (flt_of_int (pos ! 0), flt_of_int (pos ! 1),
                                    flt_of_int (pos ! 2), flt_of_int (pos ! 3))),
      applyLeveling = (\<lambda>p. p),
      bound = (\<lambda>p. p),
      initAxisSteppers = (\<lambda>pos vx vy vz ve. [LinearDeltaStepper_nextStep example_stepper]),
      initAxisHomeSteppers = (\<lambda>v. []),
      homeStepper_nextStep = (\<lambda>s. s\<lparr>time := NaN\<rparr>),
      accel_begin = (\<lambda>d v a. a),
      accel_transform = (\<lambda>a t. t)\<rparr>"

definition example_planner :: "unit MotionPlanner" where
  "example_planner =
     \<lparr>accel = (), destMechanicalPos = [1, 0, 0, 0],
      iters = [example_stepper\<lparr>time := Fin 1, direction := StepForward, sTotal := 1\<rparr>],
      homeIters = [\<lparr>index = 0, time = NaN, direction = StepForward\<rparr>],
      baseTime = 5, duration = Fin 10, motionType = MotionMove\<rparr>"

definition example_planner_homing :: "unit MotionPlanner" where
  "example_planner_homing = example_planner\<lparr>duration := NaN, motionType := MotionHome\<rparr>"

text \<open>
  A machine around that planner: no clamping of the move rate, extrusion between -50 and
  50 mm/s, a homing routine that only marks the position. The planner that state.h
  drives is not under src; in this machine the planner of motion/motionplanner.h stands
  in for it: \<open>peekNextEvent\<close> and \<open>consumeNextEvent\<close> are the event and the planner that
  \<open>nextStep\<close> returns, \<open>moveTo\<close> drops the flags, an arc is planned as its chord, and
  the planner is ready when it has no further event. Then a state that has moved to
  x = 10 in relative mode, and the same state in inches.
\<close>

definition example_drv :: "(unit MotionPlanner, Event) Drv" where
  "example_drv =
     \<lparr>clampMoveRate = (\<lambda>f. f),
      maxRetractRate = Fin 50,
      maxExtrudeRate = Fin 50,
      MOTIONFLAGS_DEFAULT = 0,
      planner_readyForNextMove = (\<lambda>P. fst (MotionPlanner_nextStep example_interface P) = None),
      doHomeBeforeFirstMovement = False,
      planner_moveTo = (\<lambda>start dest vel minE maxE flags P.
         MotionPlanner_moveTo example_interface start (vec_x dest) (vec_y dest) (vec_z dest)
           (vec_e dest) vel minE maxE P),
      planner_arcTo = (\<lambda>start dest center vel minE maxE isCW P.
         MotionPlanner_moveTo example_interface start (vec_x dest) (vec_y dest) (vec_z dest)
           (vec_e dest) vel minE maxE P),
      planner_peekNextEvent = (\<lambda>P. fst (MotionPlanner_nextStep example_interface P)),
      planner_consumeNextEvent = (\<lambda>P. snd (MotionPlanner_nextStep example_interface P)),
      event_time = (\<lambda>e. case evt_time e of Fin t \<Rightarrow> t | _ \<Rightarrow> 0),
      executeHomeRoutine = (\<lambda>S. S),
      relGcodePathToAbs = (\<lambda>path. path),
      to_string = (\<lambda>v. []),
      absentParam = NaN\<rparr>"

definition example_env :: Env where
  "example_env =
     \<lparr>env_now = 3, env_hotendTemp = Fin 200, env_hotendTargetTemp = Fin 200, env_bedTemp = Fin 60\<rparr>"

text \<open>An idle call with room in the buffer of the scheduler and no event of the IO drivers.\<close>

definition example_idle :: "Event IdleEnv" where
  "example_idle =
     \<lparr>env_now = 3, env_hotendTemp = Fin 200, env_hotendTargetTemp = Fin 200, env_bedTemp = Fin 60,
      env_isRoomInBuffer = True, env_isRoomInBufferAfterQueue = True, env_ioDriverEvt = None\<rparr>"

definition example_state :: "unit MotionPlanner State" where
  "example_state =
     \<lparr>doShutdownAfterMoveCompletes = False, doExitEventLoopAfterMoveCompletes = False,
      doBufferMoves = True, positionMode = POS_RELATIVE, extruderPosMode = POS_RELATIVE,
      unitMode = UNIT_MM, destMm = Vector4f (Fin 10) (Fin 0) (Fin 0) (Fin 0),
      destMoveRatePrimitive = Fin 10, hostZeroOffset = Vector4f (Fin 2) (Fin 0) (Fin 0) (Fin 0),
      isHoming = False, isHomed = True, isWaitingForHotend = False,
      lastMotionPlannedTime = 7, gcodeFileStack = [],
      motionPlanner = example_planner\<lparr>motionType := MotionNone\<rparr>, effects = []\<rparr>"

definition example_state_inches :: "unit MotionPlanner State" where
  "example_state_inches = example_state\<lparr>unitMode := UNIT_IN\<rparr>"

definition example_command :: "string \<Rightarrow> (char \<Rightarrow> flt option) \<Rightarrow> Command" where
  "example_command verb params = \<lparr>cmd_opcode = verb, cmd_params = params, cmd_specialString = []\<rparr>"

text \<open>
  A segment of that machine along z at 10 mm/s over 20 mm, with the base time \<open>b\<close> and
  the axis at \<open>p\<close> steps: the planner as \<open>moveTo\<close> leaves it, and after its two steps.
  Its events are at \<open>b + 1\<close> and \<open>b + 2\<close>. Then the state with the first segment
  queued at time 7, and the state after that segment was handed to the scheduler.
\<close>

definition example_event :: "real \<Rightarrow> Event" where
  "example_event t = \<lparr>evt_time = Fin t, evt_stepperId = 0, evt_direction = StepForward\<rparr>"

definition example_segment :: "time_point \<Rightarrow> int \<Rightarrow> unit MotionPlanner" where
  "example_segment b p =
     example_planner\<lparr>baseTime := b, duration := Fin 2, destMechanicalPos := [p, 0, 0, 0]\<rparr>"

definition example_segment_done :: "time_point \<Rightarrow> int \<Rightarrow> unit MotionPlanner" where
  "example_segment_done b p =
     example_planner\<lparr>baseTime := b, duration := Fin 2, destMechanicalPos := [p + 2, 0, 0, 0],
       iters := [example_stepper\<lparr>time := Fin 3, direction := StepForward, sTotal := 3\<rparr>]\<rparr>"

definition example_state_moving :: "unit MotionPlanner State" where
  "example_state_moving =
     example_state\<lparr>destMm := Vector4f (Fin 1) (Fin 0) (Fin 20) (Fin 0),
       motionPlanner := example_segment 7 1\<rparr>"

definition example_state_moved :: "unit MotionPlanner State" where
  "example_state_moved =
     example_state_moving\<lparr>lastMotionPlannedTime := 9, motionPlanner := example_segment_done 7 1\<rparr>"

section \<open>Properties of the comparisons and of the arithmetic\<close>

lemma fless_irrefl [simp]: "\<not> fless a a"
  by (cases a) auto

lemma fless_NaN_right [simp]: "\<not> fless a NaN"
  by (cases a) auto

lemma fless_trans: "fless a b \<Longrightarrow> fless b c \<Longrightarrow> fless a c"
  by (cases a; cases b; cases c) auto

lemma fless_asym: "fless a b \<Longrightarrow> \<not> fless b a"
  by (cases a; cases b) auto

lemma fless_not_nan: "fless a b \<Longrightarrow> \<not> isnan a \<and> \<not> isnan b"
  by (cases a; cases b) auto

lemma fle_iff: "fle a b \<longleftrightarrow> \<not> isnan a \<and> \<not> isnan b \<and> \<not> fless b a"
  by (cases a; cases b) (auto simp: fle_def feq_def)


lemma fle_trans: "fle a b \<Longrightarrow> fle b c \<Longrightarrow> fle a c"
  by (cases a; cases b; cases c) (auto simp: fle_def feq_def)

lemma fless_imp_fle: "fless a b \<Longrightarrow> fle a b"
  by (simp add: fle_def)

lemma fle_fless_trans: "fle a b \<Longrightarrow> fless b c \<Longrightarrow> fless a c"
  by (cases a; cases b; cases c) (auto simp: fle_def feq_def)

lemma fless_zero_of_not_fle: "\<not> fle t (Fin 0) \<Longrightarrow> \<not> isnan t \<Longrightarrow> fless (Fin 0) t"
  by (cases t) (auto simp: fle_def feq_def)

lemma isnan_iff: "isnan a \<longleftrightarrow> a = NaN"
  by (cases a) auto


lemma fle_fadd_nonneg: "fle (Fin 0) x \<Longrightarrow> fle (Fin b) (fadd (Fin b) x)"
  by (cases x) (auto simp: fle_def feq_def)

lemma fsub_fsub_idem: "fsub d (fsub d (fsub d (fsub d x))) = fsub d (fsub d x)"
  by (cases d; cases x) (auto simp: fsub_def)


section \<open>The selection of the next stepper\<close>

lemma getNextTime_from_least:
  "best < k \<Longrightarrow>
   (let r = getNextTime_from ts k best bt;
        rt = (if r = best then bt else ts ! (r - k))
    in (r = best \<or> (k \<le> r \<and> r < k + length ts)) \<and> least_at rt (bt # ts))"
proof (induction ts arbitrary: k best bt)
  case Nil
  then show ?case by (auto simp: least_at_def fle_iff)
next
  case (Cons t ts)
  show ?case
  proof (cases "fless t bt \<or> (isnan bt \<and> \<not> isnan t)")
    case True
    define r where "r = getNextTime_from ts (Suc k) k t"
    define rt where "rt = (if r = k then t else ts ! (r - Suc k))"
    have ih: "(r = k \<or> (Suc k \<le> r \<and> r < Suc k + length ts)) \<and> least_at rt (t # ts)"
      unfolding r_def rt_def by (rule Cons.IH[OF lessI, unfolded Let_def])
    have r: "getNextTime_from (t # ts) k best bt = r" using True by (simp add: r_def)
    have ne: "r \<noteq> best" using ih Cons.prems by auto
    have rt': "(t # ts) ! (r - k) = rt" using ih by (auto simp: rt_def nth_Cons')
    have "least_at rt (bt # t # ts)"
    proof -
      from ih have l: "least_at rt (t # ts)" by simp
      have "isnan bt \<or> fle rt bt"
      proof (cases "isnan bt")
        case False
        with True have "fless t bt" by simp
        moreover then have "\<not> isnan t" using fless_not_nan by blast
        then have "fle rt t" using l by (simp add: least_at_def)
        ultimately show ?thesis using fle_fless_trans fless_imp_fle by blast
      qed simp
      moreover have "isnan rt \<longrightarrow> isnan bt"
      proof
        assume "isnan rt"
        then have "isnan t" using l by (simp add: least_at_def)
        then show "isnan bt" using True by (cases t) auto
      qed
      ultimately show ?thesis using l by (auto simp: least_at_def)
    qed
    then show ?thesis using ih ne rt' unfolding r Let_def by auto
  next
    case False
    define r where "r = getNextTime_from ts (Suc k) best bt"
    define rt where "rt = (if r = best then bt else ts ! (r - Suc k))"
    have ih: "(r = best \<or> (Suc k \<le> r \<and> r < Suc k + length ts)) \<and> least_at rt (bt # ts)"
      unfolding r_def rt_def by (rule Cons.IH[OF less_SucI[OF Cons.prems], unfolded Let_def])
    have r: "getNextTime_from (t # ts) k best bt = r" using False by (auto simp: r_def)
    have rt': "(if r = best then bt else (t # ts) ! (r - k)) = rt"
      using ih Cons.prems by (auto simp: rt_def nth_Cons')
    have "least_at rt (bt # t # ts)"
    proof -
      from ih have l: "least_at rt (bt # ts)" by simp
      have "isnan t \<or> fle rt t"
      proof (cases "isnan t")
        case nt: False
        with False have nb: "\<not> isnan bt" and "\<not> fless t bt" by auto
        then have "fle bt t" using nt by (simp add: fle_iff)
        moreover have "fle rt bt" using l nb by (simp add: least_at_def)
        ultimately show ?thesis using fle_trans by blast
      qed simp
      moreover have "isnan rt \<longrightarrow> isnan t"
      proof
        assume "isnan rt"
        then have "isnan bt" using l by (simp add: least_at_def)
        then show "isnan t" using False by auto
      qed
      ultimately show ?thesis using l by (auto simp: least_at_def)
    qed
    then show ?thesis using ih rt' unfolding r Let_def by auto
  qed
qed

lemma getNextTime_least:
  assumes "ts \<noteq> []"
  shows "getNextTime ts < length ts \<and> least_at (ts ! getNextTime ts) ts"
proof -
  obtain t rest where ts: "ts = t # rest" using assms by (cases ts) auto
  define r where "r = getNextTime_from rest 1 0 t"
  have h: "(r = 0 \<or> (1 \<le> r \<and> r < 1 + length rest)) \<and> least_at (if r = 0 then t else rest ! (r - 1)) (t # rest)"
    unfolding r_def by (rule getNextTime_from_least[OF zero_less_one, unfolded Let_def])
  have g: "getNextTime ts = r" by (simp add: getNextTime_def ts r_def)
  have "ts ! r = (if r = 0 then t else rest ! (r - 1))" by (simp add: ts nth_Cons')
  then show ?thesis using h g ts by auto
qed

section \<open>The linear delta stepper\<close>

lemma testDir_after: "testDir stp s = NaN \<or> fless (time stp) (testDir stp s)"
  by (auto simp: testDir_def Let_def split: prod.splits)

lemma candidates_after:
  "negTime stp = NaN \<or> fless (time stp) (negTime stp)"
  "posTime stp = NaN \<or> fless (time stp) (posTime stp)"
  unfolding negTime_def posTime_def by (rule testDir_after)+

lemma LinearDeltaStepper_nextStep_time:
  "time (LinearDeltaStepper_nextStep stp) = NaN \<or> fless (time stp) (time (LinearDeltaStepper_nextStep stp))"
  using testDir_after[of stp "fmul (flt_of_int (sTotal stp - 1)) (MM_STEPS stp)"]
        testDir_after[of stp "fmul (flt_of_int (sTotal stp + 1)) (MM_STEPS stp)"]
  by (auto simp: LinearDeltaStepper_nextStep_def negTime_def posTime_def)

lemma LinearDeltaStepper_nextStep_index: "index (LinearDeltaStepper_nextStep stp) = index stp"
  by (auto simp: LinearDeltaStepper_nextStep_def Let_def)

lemma testDir_negative_rootParam:
  "fless (snd (getTerm1AndRootParam stp s)) (Fin 0) \<Longrightarrow> testDir stp s = NaN"
  by (auto simp: testDir_def split: prod.splits)

lemma testDir_smallest_root:
  assumes g: "getTerm1AndRootParam stp s = (Fin a, Fin d)" and d: "0 \<le> d"
    and t: "time stp = Fin t" "0 \<le> t"
  shows "(testDir stp s = NaN \<and> a + sqrt d \<le> t)
         \<or> (\<exists>x. testDir stp s = Fin x \<and> is_smallest_root_after t a d x)"
proof -
  have sq: "0 \<le> sqrt d" using d by simp
  show ?thesis
  proof (cases "a < sqrt d")
    case True
    then have "a - sqrt d < 0" by simp
    then have "\<not> t < a - sqrt d" using t(2) by linarith
    then show ?thesis using True g d t sq
      by (auto simp: testDir_def fsub_def is_smallest_root_after_def Let_def)
  next
    case False
    then show ?thesis using g d t sq
      by (auto simp: testDir_def fsub_def is_smallest_root_after_def Let_def)
  qed
qed

lemma nextStep_both_invalid:
  "isnan (negTime stp) \<Longrightarrow> isnan (posTime stp) \<Longrightarrow>
   LinearDeltaStepper_nextStep stp = stp\<lparr>time := NaN\<rparr>"
  by (auto simp: LinearDeltaStepper_nextStep_def isnan_iff)

lemma nextStep_forward:
  "\<not> isnan (posTime stp) \<Longrightarrow> isnan (negTime stp) \<or> \<not> fless (negTime stp) (posTime stp) \<Longrightarrow>
   LinearDeltaStepper_nextStep stp
   = stp\<lparr>time := posTime stp, direction := StepForward, sTotal := sTotal stp + 1\<rparr>"
  using candidates_after[of stp]
  by (auto simp: LinearDeltaStepper_nextStep_def isnan_iff dest: fless_asym fless_trans)

lemma nextStep_backward:
  "\<not> isnan (negTime stp) \<Longrightarrow> isnan (posTime stp) \<or> fless (negTime stp) (posTime stp) \<Longrightarrow>
   LinearDeltaStepper_nextStep stp
   = stp\<lparr>time := negTime stp, direction := StepBackward, sTotal := sTotal stp - 1\<rparr>"
  using candidates_after[of stp]
  by (auto simp: LinearDeltaStepper_nextStep_def isnan_iff dest: fless_asym fless_trans)

lemma init_time_not_negative:
  "time_not_negative (LinearDeltaStepper_init axis idx dir r L mm axisPos xyz0 vx vy vz)"
  by (cases xyz0) (simp add: time_not_negative_def LinearDeltaStepper_init_def Let_def fle_def feq_def)

lemma nextStep_time_not_negative:
  "time_not_negative stp \<Longrightarrow> time_not_negative (LinearDeltaStepper_nextStep stp)"
  using LinearDeltaStepper_nextStep_time[of stp]
  by (auto simp: time_not_negative_def isnan_iff dest: fle_fless_trans fless_imp_fle)

lemma rod_identity:
  fixes i :: real
  assumes i: "(vx * vx + vy * vy + vz * vz) * i = 1"
    and a: "a = i * (ty * vy + tx * vx - vx * x0 - vy * y0 + vz * (m0 - z0)) + vz * i * s"
    and d: "d = a * a + - i * (- L * L + (x0 - tx) * (x0 - tx) + (y0 - ty) * (y0 - ty)
                + m0 * m0 - 2 * m0 * z0 + z0 * z0) - i * s * (2 * m0 - 2 * z0 + s)"
    and t: "(t - a) * (t - a) = d"
  shows "(m0 + s - (z0 + vz * t)) * (m0 + s - (z0 + vz * t))
         + (x0 + vx * t - tx) * (x0 + vx * t - tx)
         + (y0 + vy * t - ty) * (y0 + vy * t - ty) = L * L"
proof -
  define v2 where "v2 = vx * vx + vy * vy + vz * vz"
  define b where "b = ty * vy + tx * vx - vx * x0 - vy * y0 + vz * (m0 + s - z0)"
  define c where "c = - L * L + (x0 - tx) * (x0 - tx) + (y0 - ty) * (y0 - ty)
                + (m0 + s - z0) * (m0 + s - z0)"
  have vi: "v2 * i = 1" using i by (simp add: v2_def)
  have ab: "a = i * b" unfolding a b_def by (simp add: algebra_simps)
  have dc: "d = a * a - i * c" unfolding d c_def by (simp add: algebra_simps)
  have "t * t - 2 * a * t + i * c = 0" using t dc by (simp add: algebra_simps)
  then have "v2 * (t * t - 2 * a * t + i * c) = 0" by simp
  then have "v2 * (t * t) - 2 * (v2 * i) * b * t + (v2 * i) * c = 0"
    unfolding ab by (simp add: algebra_simps)
  then have q: "v2 * (t * t) - 2 * b * t + c = 0" unfolding vi by simp
  have "(m0 + s - (z0 + vz * t)) * (m0 + s - (z0 + vz * t))
         + (x0 + vx * t - tx) * (x0 + vx * t - tx)
         + (y0 + vy * t - ty) * (y0 + vy * t - ty) - L * L
        = v2 * (t * t) - 2 * b * t + c"
    unfolding v2_def b_def c_def by (simp add: algebra_simps)
  with q show ?thesis by simp
qed

lemma testDir_Fin_root:
  assumes "testDir stp s = Fin t" and "getTerm1AndRootParam stp s = (Fin a, Fin d)"
  shows "(t - a) * (t - a) = d"
proof -
  have d: "0 \<le> d" using assms by (auto simp: testDir_def split: if_splits)
  then have "t = a - sqrt d \<or> t = a + sqrt d"
    using assms by (auto simp: testDir_def fsub_def Let_def split: if_splits)
  then show ?thesis using d by auto
qed

lemma getTerm1AndRootParam_init:
  fixes r L mm x0 y0 z0 vx vy vz s :: real and axisPos :: int and axis :: DeltaAxis
  assumes v: "vx * vx + vy * vy + vz * vz \<noteq> 0"
  defines "i \<equiv> 1 / (vx * vx + vy * vy + vz * vz)"
    and "m0 \<equiv> of_int axisPos * mm"
  defines "a \<equiv> i * ((case axis of
                         DELTA_AXIS_A \<Rightarrow> r * vy
                       | DELTA_AXIS_B \<Rightarrow> r * (sqrt 3 * vx - vy) / 2
                       | DELTA_AXIS_C \<Rightarrow> - r * (sqrt 3 * vx + vy) / 2)
                      - vx * x0 - vy * y0 + vz * (m0 - z0))
                 + vz * i * s"
  shows "getTerm1AndRootParam
           ((LinearDeltaStepper_init axis idx dir (Fin r) (Fin L) (Fin mm) axisPos
               (Fin x0, Fin y0, Fin z0) (Fin vx) (Fin vy) (Fin vz))
            \<lparr>time := tm, direction := dr, sTotal := n\<rparr>) (Fin s)
         = (Fin a,
            Fin (a * a
                 + - i * ((case axis of
                             DELTA_AXIS_A \<Rightarrow> - L * L + x0 * x0 + (r - y0) * (r - y0)
                           | DELTA_AXIS_B \<Rightarrow>
                               - L * L + r * r + x0 * x0 + y0 * y0 + r * (- sqrt 3 * x0 + y0)
                           | DELTA_AXIS_C \<Rightarrow>
                               - L * L + r * r + x0 * x0 + y0 * y0 + r * (sqrt 3 * x0 + y0))
                          + m0 * m0 - 2 * m0 * z0 + z0 * z0)
                 - i * s * (2 * m0 - 2 * z0 + s)))"
  using v unfolding a_def i_def m0_def
  by (cases axis)
     (simp_all add: getTerm1AndRootParam_def LinearDeltaStepper_init_def flt_of_int_def fsub_def
        Let_def)

lemma tower_dot:
  "(case axis of
      DELTA_AXIS_A \<Rightarrow> r * vy
    | DELTA_AXIS_B \<Rightarrow> r * (sqrt 3 * vx - vy) / 2
    | DELTA_AXIS_C \<Rightarrow> - r * (sqrt 3 * vx + vy) / 2)
   = tower_y axis r * vy + tower_x axis r * vx"
  by (cases axis) (simp_all add: tower_x_def tower_y_def field_simps)

lemma tower_dist:
  "(case axis of
      DELTA_AXIS_A \<Rightarrow> - L * L + x0 * x0 + (r - y0) * (r - y0)
    | DELTA_AXIS_B \<Rightarrow> - L * L + r * r + x0 * x0 + y0 * y0 + r * (- sqrt 3 * x0 + y0)
    | DELTA_AXIS_C \<Rightarrow> - L * L + r * r + x0 * x0 + y0 * y0 + r * (sqrt 3 * x0 + y0))
   = - L * L + (x0 - tower_x axis r) * (x0 - tower_x axis r)
     + (y0 - tower_y axis r) * (y0 - tower_y axis r)"
proof -
  have "(sqrt 3 / 2 * r) * (sqrt 3 / 2 * r) = (sqrt 3 * sqrt 3) * (r * r) / 4" by simp
  also have "\<dots> = 3 * (r * r) / 4" by simp
  finally have q: "(sqrt 3 / 2 * r) * (sqrt 3 / 2 * r) = 3 * (r * r) / 4" .
  have b: "(x0 - sqrt 3 / 2 * r) * (x0 - sqrt 3 / 2 * r)
        = x0 * x0 - sqrt 3 * r * x0 + (sqrt 3 / 2 * r) * (sqrt 3 / 2 * r)"
    by (simp add: algebra_simps)
  have c: "(x0 + sqrt 3 / 2 * r) * (x0 + sqrt 3 / 2 * r)
        = x0 * x0 + sqrt 3 * r * x0 + (sqrt 3 / 2 * r) * (sqrt 3 / 2 * r)"
    by (simp add: algebra_simps)
  have y: "(y0 + r / 2) * (y0 + r / 2) = y0 * y0 + r * y0 + r * r / 4"
    by (simp add: algebra_simps)
  show ?thesis
  proof (cases axis)
    case DELTA_AXIS_A
    then show ?thesis by (simp add: tower_x_def tower_y_def algebra_simps)
  next
    case DELTA_AXIS_B
    then show ?thesis
      unfolding tower_x_def tower_y_def using b[unfolded q] y by (simp add: algebra_simps)
  next
    case DELTA_AXIS_C
    then show ?thesis
      unfolding tower_x_def tower_y_def using c[unfolded q] y by (simp add: algebra_simps)
  qed
qed

text \<open>
  The times that \<open>testDir\<close> returns are times at which the rod of the tower has its
  length: with the effector at \<open>(x0, y0, z0) + t (vx, vy, vz)\<close> and the carriage \<open>s\<close>
  millimetres above its position at the start of the segment, the distance between the
  two is \<open>L\<close>.
\<close>

lemma testDir_on_rod:
  fixes r L mm x0 y0 z0 vx vy vz s t :: real and axisPos :: int and axis :: DeltaAxis
  assumes v: "vx * vx + vy * vy + vz * vz \<noteq> 0"
    and t: "testDir
              ((LinearDeltaStepper_init axis idx dir (Fin r) (Fin L) (Fin mm) axisPos
                  (Fin x0, Fin y0, Fin z0) (Fin vx) (Fin vy) (Fin vz))
               \<lparr>time := tm, direction := dr, sTotal := n\<rparr>) (Fin s) = Fin t"
  shows "(of_int axisPos * mm + s - (z0 + vz * t)) * (of_int axisPos * mm + s - (z0 + vz * t))
         + (x0 + vx * t - tower_x axis r) * (x0 + vx * t - tower_x axis r)
         + (y0 + vy * t - tower_y axis r) * (y0 + vy * t - tower_y axis r) = L * L"
proof -
  define i where "i = 1 / (vx * vx + vy * vy + vz * vz)"
  define m0 where "m0 = of_int axisPos * mm"
  define a where "a = i * (tower_y axis r * vy + tower_x axis r * vx - vx * x0 - vy * y0
                      + vz * (m0 - z0)) + vz * i * s"
  define d where "d = a * a + - i * (- L * L + (x0 - tower_x axis r) * (x0 - tower_x axis r)
                + (y0 - tower_y axis r) * (y0 - tower_y axis r)
                + m0 * m0 - 2 * m0 * z0 + z0 * z0) - i * s * (2 * m0 - 2 * z0 + s)"
  have g: "getTerm1AndRootParam
           ((LinearDeltaStepper_init axis idx dir (Fin r) (Fin L) (Fin mm) axisPos
               (Fin x0, Fin y0, Fin z0) (Fin vx) (Fin vy) (Fin vz))
            \<lparr>time := tm, direction := dr, sTotal := n\<rparr>) (Fin s) = (Fin a, Fin d)"
    unfolding d_def a_def i_def m0_def
    using getTerm1AndRootParam_init[OF v, where axis = axis and r = r and L = L,
        unfolded tower_dot tower_dist] .
  have root: "(t - a) * (t - a) = d" by (rule testDir_Fin_root[OF t g])
  have one: "(vx * vx + vy * vy + vz * vz) * i = 1" using v by (simp add: i_def)
  show ?thesis
    using rod_identity[OF one a_def d_def root] unfolding m0_def .
qed

section \<open>The steps of the planner\<close>

text \<open>What one emitted step of a move looks like.\<close>

lemma nextStep_move_Some:
  assumes mt: "motionType P = MotionMove"
    and st: "MotionPlanner_nextStep iface P = (Some e, P')"
  defines "k \<equiv> getNextTime (map time (iters P))"
  shows "iters P \<noteq> []"
    and "k < length (iters P)"
    and "\<not> fless (duration P) (time (iters P ! k))"
    and "\<not> fle (time (iters P ! k)) (Fin 0)"
    and "\<not> isnan (time (iters P ! k))"
    and "e = offset (baseTime P) (getEvent (index (iters P ! k)) (direction (iters P ! k))
                 (accel_transform iface (accel P) (time (iters P ! k))))"
    and "P' = P\<lparr>destMechanicalPos := (destMechanicalPos P)
                   [index (iters P ! k) := destMechanicalPos P ! index (iters P ! k)
                      + stepDirToSigned (direction (iters P ! k))],
                 iters := (iters P)[k := LinearDeltaStepper_nextStep (iters P ! k)]\<rparr>"
proof -
  show ne: "iters P \<noteq> []" using mt st by (auto simp: MotionPlanner_nextStep_def split: if_splits)
  then show "k < length (iters P)" using getNextTime_least[of "map time (iters P)"] by (simp add: k_def)
  have at: "MotionPlanner_nextStep_at iface k False P = (Some e, P')"
    using mt st ne by (simp add: MotionPlanner_nextStep_def k_def)
  then show "\<not> fless (duration P) (time (iters P ! k))"
    and "\<not> fle (time (iters P ! k)) (Fin 0)"
    and "\<not> isnan (time (iters P ! k))"
    by (auto simp: MotionPlanner_nextStep_at_def Let_def split: if_splits)
  from at show "e = offset (baseTime P) (getEvent (index (iters P ! k)) (direction (iters P ! k))
                 (accel_transform iface (accel P) (time (iters P ! k))))"
    by (auto simp: MotionPlanner_nextStep_at_def Let_def split: if_splits)
  from at show "P' = P\<lparr>destMechanicalPos := (destMechanicalPos P)
                   [index (iters P ! k) := destMechanicalPos P ! index (iters P ! k)
                      + stepDirToSigned (direction (iters P ! k))],
                 iters := (iters P)[k := LinearDeltaStepper_nextStep (iters P ! k)]\<rparr>"
    by (auto simp: MotionPlanner_nextStep_at_def Let_def split: if_splits)
qed

lemma nextStep_move_frame:
  assumes mt: "motionType P = MotionMove"
    and st: "MotionPlanner_nextStep iface P = (Some e, P')"
  shows "motionType P' = MotionMove" "duration P' = duration P" "accel P' = accel P"
    "baseTime P' = baseTime P"
    "evt_time e = fadd (Fin (baseTime P)) (accel_transform iface (accel P) (selected_time P))"
  using nextStep_move_Some(6,7)[OF mt st] mt
  by (simp_all add: selected_time_def offset_def getEvent_def)







text \<open>
  No event of a segment is before its base time, when the profile maps positive times
  to times that are not negative. This is the property that the start times of
  consecutive segments rely on; it is assumed of the planner that state.h drives and
  holds of the planner of motion/motionplanner.h.
\<close>

lemma events_after_base:
  assumes nn: "\<forall>t. fless (Fin 0) t \<longrightarrow> fle (Fin 0) (accel_transform iface a t)"
  shows "motionType P = MotionMove \<Longrightarrow> accel P = a \<Longrightarrow>
         \<forall>e\<in>set (nextStep_events iface n P). fle (Fin (baseTime P)) (evt_time e)"
proof (induction n arbitrary: P)
  case 0
  then show ?case by simp
next
  case (Suc n)
  show ?case
  proof (cases "MotionPlanner_nextStep iface P")
    case (Pair r P')
    show ?thesis
    proof (cases r)
      case None
      then show ?thesis using Pair by simp
    next
      case (Some e)
      have st: "MotionPlanner_nextStep iface P = (Some e, P')" using Pair Some by simp
      note F = nextStep_move_frame[OF Suc.prems(1) st]
      note S = nextStep_move_Some(4,5)[OF Suc.prems(1) st]
      have "fless (Fin 0) (selected_time P)"
        using S Suc.prems(1) by (simp add: selected_time_def fless_zero_of_not_fle)
      then have "fle (Fin 0) (accel_transform iface a (selected_time P))" using nn by blast
      then have e: "fle (Fin (baseTime P)) (evt_time e)"
        unfolding F(5) Suc.prems(2) by (rule fle_fadd_nonneg)
      have "\<forall>e\<in>set (nextStep_events iface n P'). fle (Fin (baseTime P')) (evt_time e)"
        using Suc.IH[of P'] F Suc.prems by simp
      then show ?thesis using e st F(4) by simp
    qed
  qed
qed

lemma moveTo_planner:
  "iters P \<noteq> [] \<Longrightarrow>
   baseTime (MotionPlanner_moveTo iface base x y z e v minE maxE P) = base
   \<and> motionType (MotionPlanner_moveTo iface base x y z e v minE maxE P) = MotionMove"
  by (simp add: MotionPlanner_moveTo_def Let_def)

section \<open>The velocities of a move\<close>


lemma moveTo_locals_velE:
  "mv_velE (moveTo_locals cur dest maxVelXyz minVelE maxVelE)
   = std_max minVelE (std_min maxVelE (moveTo_velE cur dest maxVelXyz))"
  by (cases cur; cases dest) (auto simp: moveTo_locals_def Let_def feq_def)

lemma moveTo_locals_changed:
  assumes "\<not> feq (moveTo_velE cur dest maxVelXyz)
              (std_max minVelE (std_min maxVelE (moveTo_velE cur dest maxVelXyz)))"
  shows "mv_minDuration (moveTo_locals cur dest maxVelXyz minVelE maxVelE)
         = fdiv (fsub (snd (snd (snd dest))) (snd (snd (snd cur))))
                (std_max minVelE (std_min maxVelE (moveTo_velE cur dest maxVelXyz)))"
    and "mv_maxVelXyz (moveTo_locals cur dest maxVelXyz minVelE maxVelE)
         = fdiv (moveTo_dist cur dest)
                (mv_minDuration (moveTo_locals cur dest maxVelXyz minVelE maxVelE))"
  using assms by (cases cur; cases dest; simp add: moveTo_locals_def Let_def)+



lemma MotionPlanner_moveTo_locals:
  assumes "iters P \<noteq> []"
  shows "MotionPlanner_moveTo iface base x y z e maxVelXyz minVelE maxVelE P
    = (let L = moveTo_locals (xyzeFromMechanical iface (destMechanicalPos P))
                 (bound iface (fst (applyLeveling iface (x, y, z)),
                               fst (snd (applyLeveling iface (x, y, z))),
                               snd (snd (applyLeveling iface (x, y, z))), e))
                 maxVelXyz minVelE maxVelE
       in P\<lparr>baseTime := base,
            iters := initAxisSteppers iface (destMechanicalPos P)
                       (mv_vx L) (mv_vy L) (mv_vz L) (mv_velE L),
            duration := mv_minDuration L,
            motionType := MotionMove,
            accel := accel_begin iface (mv_minDuration L) (mv_maxVelXyz L) (accel P)\<rparr>)"
  using assms by (simp add: MotionPlanner_moveTo_def Let_def)

lemma moveTo_same_xyz:
  assumes "0 < v"
  shows "moveTo_dist (Fin cx, Fin cy, Fin cz, ce) (Fin cx, Fin cy, Fin cz, e) = Fin 0"
    and "moveTo_minDuration (Fin cx, Fin cy, Fin cz, ce) (Fin cx, Fin cy, Fin cz, e) (Fin v) = Fin 0"
    and "moveTo_velE (Fin cx, Fin cy, Fin cz, Fin ce') (Fin cx, Fin cy, Fin cz, Fin e') (Fin v)
         = (if ce' < e' then PInf else if e' < ce' then NInf else NaN)"
  using assms
  by (simp_all add: moveTo_dist_def moveTo_minDuration_def moveTo_velE_def fsub_def
        inf_of_sign_def)

lemma moveTo_same_xyz_locals:
  assumes "0 < v" and "mn < 0" and "0 < mx"
  shows "mv_velE (moveTo_locals (Fin cx, Fin cy, Fin cz, Fin ce) (Fin cx, Fin cy, Fin cz, Fin e)
                   (Fin v) (Fin mn) (Fin mx)) = (if e < ce then Fin mn else Fin mx)"
    and "mv_minDuration (moveTo_locals (Fin cx, Fin cy, Fin cz, Fin ce)
                   (Fin cx, Fin cy, Fin cz, Fin e) (Fin v) (Fin mn) (Fin mx))
         = fdiv (fsub (Fin e) (Fin ce)) (if e < ce then Fin mn else Fin mx)"
proof -
  let ?cur = "(Fin cx, Fin cy, Fin cz, Fin ce)" and ?dest = "(Fin cx, Fin cy, Fin cz, Fin e)"
  note V = moveTo_same_xyz(3)[OF assms(1), of cx cy cz ce e]
  have c: "std_max (Fin mn) (std_min (Fin mx) (moveTo_velE ?cur ?dest (Fin v)))
           = (if e < ce then Fin mn else Fin mx)"
    unfolding V using assms by (simp add: std_max_def std_min_def)
  show 1: "mv_velE (moveTo_locals ?cur ?dest (Fin v) (Fin mn) (Fin mx))
           = (if e < ce then Fin mn else Fin mx)"
    unfolding moveTo_locals_velE c ..
  have ch: "\<not> feq (moveTo_velE ?cur ?dest (Fin v))
              (std_max (Fin mn) (std_min (Fin mx) (moveTo_velE ?cur ?dest (Fin v))))"
    unfolding c unfolding V by (simp add: feq_def)
  show "mv_minDuration (moveTo_locals ?cur ?dest (Fin v) (Fin mn) (Fin mx))
         = fdiv (fsub (Fin e) (Fin ce)) (if e < ce then Fin mn else Fin mx)"
    using moveTo_locals_changed(1)[OF ch] unfolding c by simp
qed

section \<open>The interpreter of commands\<close>

lemma execute_G92_branch:
  "cmd_opcode cmd = ''G92'' \<Longrightarrow> execute drv env cmd S = execute_G92 drv cmd S"
  by (simp add: execute_def isOp_def)

lemma execute_G92_result:
  "execute_G92 drv cmd S = (Returned, snd (execute_G92 drv cmd S)) \<and>
   snd (snd (execute_G92 drv cmd S)) = [Ok] \<and>
   destMm (fst (snd (execute_G92 drv cmd S))) = destMm S \<and>
   unitMode (fst (snd (execute_G92 drv cmd S))) = unitMode S"
  by (simp add: execute_G92_def setHostZeroPos_def Let_def)

lemma execute_G92_twice:
  "fst (snd (execute_G92 drv cmd (fst (snd (execute_G92 drv cmd S)))))
   = fst (snd (execute_G92 drv cmd S))"
  by (simp add: execute_G92_def setHostZeroPos_def Let_def vec_sub_def coordToMm_def
        fsub_fsub_idem split: LengthUnit.splits)

lemma execute_unsupported:
  "\<not> supported cmd \<Longrightarrow>
   execute drv env cmd S
   = (Threw (''unrecognized gcode opcode: '' @ [CHR 0x27] @ cmd_opcode cmd @ [CHR 0x27]), S, [])"
  by (simp add: execute_def isOp_def supported_def supported_verbs_def)

section \<open>The scheduling of motion events\<close>

text \<open>
  What \<open>onIdleCpu\<close> does to the planner and to \<open>_lastMotionPlannedTime\<close>: a call either
  hands the next event of the planner to the scheduler, consumes it and records its
  time, or leaves both as they are. After any number of calls the recorded time is that
  of the last motion event scheduled, and the events scheduled are events of the
  planner, in its order.
\<close>

lemma onIdleCpu_schedule_motion:
  assumes "onIdleCpu_schedule drv env S = (Some (QueuedMotionEvent m), needs, ret, S1)"
  shows "planner_peekNextEvent drv (motionPlanner S) = Some m"
    and "motionPlanner S1 = planner_consumeNextEvent drv (motionPlanner S)"
    and "lastMotionPlannedTime S1 = event_time drv m"
  using assms
  by (auto simp: onIdleCpu_schedule_def Let_def split: if_splits option.splits prod.splits)

lemma onIdleCpu_schedule_other:
  assumes "onIdleCpu_schedule drv env S = (q, needs, ret, S1)" and "motion_event q = []"
  shows "motionPlanner S1 = motionPlanner S"
    and "lastMotionPlannedTime S1 = lastMotionPlannedTime S"
  using assms
  by (auto simp: onIdleCpu_schedule_def Let_def split: if_splits option.splits prod.splits)

lemma motion_event_cases:
  "motion_event q = [] \<or> (\<exists>m. q = Some (QueuedMotionEvent m))"
  by (cases q rule: motion_event.cases) auto

lemma idle_run_last:
  "idle_run drv envs S = (evs, S') \<Longrightarrow>
   lastMotionPlannedTime S' = (if evs = [] then lastMotionPlannedTime S else event_time drv (last evs))"
proof (induction envs arbitrary: S evs S')
  case Nil
  then show ?case by simp
next
  case (Cons env envs)
  obtain q needs ret S1 where st: "onIdleCpu_schedule drv env S = (q, needs, ret, S1)"
    by (cases "onIdleCpu_schedule drv env S") auto
  obtain evs1 S2 where run: "idle_run drv envs S1 = (evs1, S2)"
    by (cases "idle_run drv envs S1") auto
  from Cons.prems st run have evs: "evs = motion_event q @ evs1" and S': "S' = S2" by auto
  note IH = Cons.IH[OF run]
  show ?case
  proof (cases "motion_event q = []")
    case True
    then show ?thesis using IH onIdleCpu_schedule_other(2)[OF st True] evs S' by simp
  next
    case False
    then obtain m where q: "q = Some (QueuedMotionEvent m)" using motion_event_cases[of q] by auto
    show ?thesis using IH onIdleCpu_schedule_motion(3)[OF st[unfolded q]] evs S' q by simp
  qed
qed

lemma planner_events_mono:
  "set (planner_events drv n P) \<subseteq> set (planner_events drv (Suc n) P)"
proof (induction n arbitrary: P)
  case 0
  then show ?case by simp
next
  case (Suc n)
  show ?case
  proof (cases "planner_peekNextEvent drv P")
    case None
    then show ?thesis by simp
  next
    case (Some e)
    then show ?thesis using Suc[of "planner_consumeNextEvent drv P"] by auto
  qed
qed

lemma idle_run_events:
  "idle_run drv envs S = (evs, S') \<Longrightarrow>
   set evs \<subseteq> set (planner_events drv (length envs) (motionPlanner S))"
proof (induction envs arbitrary: S evs S')
  case Nil
  then show ?case by simp
next
  case (Cons env envs)
  obtain q needs ret S1 where st: "onIdleCpu_schedule drv env S = (q, needs, ret, S1)"
    by (cases "onIdleCpu_schedule drv env S") auto
  obtain evs1 S2 where run: "idle_run drv envs S1 = (evs1, S2)"
    by (cases "idle_run drv envs S1") auto
  from Cons.prems st run have evs: "evs = motion_event q @ evs1" by auto
  note IH = Cons.IH[OF run]
  show ?case
  proof (cases "motion_event q = []")
    case True
    have "set evs1 \<subseteq> set (planner_events drv (length envs) (motionPlanner S))"
      using IH onIdleCpu_schedule_other(1)[OF st True] by simp
    then show ?thesis using planner_events_mono[of drv "length envs" "motionPlanner S"] evs True
      by auto
  next
    case False
    then obtain m where q: "q = Some (QueuedMotionEvent m)" using motion_event_cases[of q] by auto
    note M = onIdleCpu_schedule_motion[OF st[unfolded q]]
    show ?thesis using IH M(1,2) evs q by auto
  qed
qed

section \<open>Evaluation of the concrete machine\<close>

lemma sqrt_16: "sqrt 16 = 4"
  using real_sqrt_abs[of 4] by simp


lemma sqrt_400: "sqrt 400 = 20"
  using real_sqrt_abs[of 20] by simp

lemmas stepper_eval = testDir_def getTerm1AndRootParam_def flt_of_int_def fsub_def sqrt_16

lemma example_stepper_init:
  "LinearDeltaStepper_init DELTA_AXIS_A 0 StepBackward (Fin 3) (Fin 5) (Fin 1) 4
     (Fin 0, Fin 0, Fin 0) (Fin 0) (Fin 0) (Fin 1) = example_stepper"
  by (simp add: LinearDeltaStepper_init_def example_stepper_def flt_of_int_def fsub_def Let_def)

lemma example_stepper_down_init:
  "LinearDeltaStepper_init DELTA_AXIS_A 0 StepBackward (Fin 3) (Fin 5) (Fin 1) 4
     (Fin 0, Fin 0, Fin 0) (Fin 0) (Fin 0) (Fin (- 1)) = example_stepper_down"
  by (simp add: LinearDeltaStepper_init_def example_stepper_down_def example_stepper_def
        flt_of_int_def fsub_def Let_def)

lemma example_posTime: "posTime example_stepper = Fin 1"
  by (simp add: posTime_def example_stepper_def stepper_eval)

lemma example_negTime: "negTime example_stepper = Fin 7"
  by (simp add: negTime_def example_stepper_def stepper_eval)

lemma example_nextStep:
  "LinearDeltaStepper_nextStep example_stepper
   = example_stepper\<lparr>time := Fin 1, direction := StepForward, sTotal := 1\<rparr>"
  by (simp add: LinearDeltaStepper_nextStep_def example_posTime example_negTime)
     (simp add: example_stepper_def)

lemma example_down_posTime: "posTime example_stepper_down = NaN"
  by (simp add: posTime_def example_stepper_down_def example_stepper_def stepper_eval)

lemma example_down_negTime: "negTime example_stepper_down = Fin 1"
  by (simp add: negTime_def example_stepper_down_def example_stepper_def stepper_eval)

lemma example_done_posTime: "posTime example_stepper_done = NaN"
  by (simp add: posTime_def example_stepper_done_def example_stepper_def stepper_eval)

lemma example_done_negTime: "negTime example_stepper_done = NaN"
  by (simp add: negTime_def example_stepper_done_def example_stepper_def stepper_eval)

lemma example_nextStep_2:
  "LinearDeltaStepper_nextStep (example_stepper\<lparr>time := Fin 1, direction := StepForward, sTotal := 1\<rparr>)
   = example_stepper\<lparr>time := Fin 2, direction := StepForward, sTotal := 2\<rparr>"
  by (simp add: LinearDeltaStepper_nextStep_def posTime_def negTime_def example_stepper_def stepper_eval)

lemma example_nextStep_3:
  "LinearDeltaStepper_nextStep (example_stepper\<lparr>time := Fin 2, direction := StepForward, sTotal := 2\<rparr>)
   = example_stepper\<lparr>time := Fin 3, direction := StepForward, sTotal := 3\<rparr>"
  by (simp add: LinearDeltaStepper_nextStep_def posTime_def negTime_def example_stepper_def stepper_eval)

lemma example_stepper_index: "index example_stepper = 0"
  by (simp add: example_stepper_def)






lemma example_moveTo_extrude_only:
  "moveTo_minDuration (Fin 1, Fin 0, Fin 0, Fin 0) (Fin 1, Fin 0, Fin 0, Fin 5) (Fin 10) = Fin 0"
  "moveTo_velE (Fin 1, Fin 0, Fin 0, Fin 0) (Fin 1, Fin 0, Fin 0, Fin 5) (Fin 10) = PInf"
  by (simp_all add: moveTo_velE_def moveTo_minDuration_def moveTo_dist_def fsub_def
        inf_of_sign_def)


lemma example_cur:
  "xyzeFromMechanical example_interface (destMechanicalPos example_planner)
   = (Fin 1, Fin 0, Fin 0, Fin 0)"
  by (simp add: example_interface_def example_planner_def flt_of_int_def)

lemma example_dest:
  "bound example_interface (fst (applyLeveling example_interface (x, y, z)),
      fst (snd (applyLeveling example_interface (x, y, z))),
      snd (snd (applyLeveling example_interface (x, y, z))), e) = (x, y, z, e)"
  by (simp add: example_interface_def)


lemma example_segment_step_1:
  "MotionPlanner_nextStep example_interface
     (example_planner\<lparr>baseTime := b, duration := Fin 2, destMechanicalPos := [p, 0, 0, 0]\<rparr>)
   = (Some \<lparr>evt_time = Fin (b + 1), evt_stepperId = 0, evt_direction = StepForward\<rparr>,
      example_planner\<lparr>baseTime := b, duration := Fin 2, destMechanicalPos := [p + 1, 0, 0, 0],
        iters := [example_stepper\<lparr>time := Fin 2, direction := StepForward, sTotal := 2\<rparr>]\<rparr>)"
  by (simp add: MotionPlanner_nextStep_def MotionPlanner_nextStep_at_def getNextTime_def
       example_planner_def example_interface_def fle_def feq_def offset_def getEvent_def
       example_nextStep_2 example_stepper_index Let_def)

lemma example_segment_step_2:
  "MotionPlanner_nextStep example_interface
     (example_planner\<lparr>baseTime := b, duration := Fin 2, destMechanicalPos := [p, 0, 0, 0],
        iters := [example_stepper\<lparr>time := Fin 2, direction := StepForward, sTotal := 2\<rparr>]\<rparr>)
   = (Some \<lparr>evt_time = Fin (b + 2), evt_stepperId = 0, evt_direction = StepForward\<rparr>,
      example_planner\<lparr>baseTime := b, duration := Fin 2, destMechanicalPos := [p + 1, 0, 0, 0],
        iters := [example_stepper\<lparr>time := Fin 3, direction := StepForward, sTotal := 3\<rparr>]\<rparr>)"
  by (simp add: MotionPlanner_nextStep_def MotionPlanner_nextStep_at_def getNextTime_def
       example_planner_def example_interface_def fle_def feq_def offset_def getEvent_def
       example_nextStep_3 example_stepper_index Let_def)

lemma example_segment_step_3:
  "fst (MotionPlanner_nextStep example_interface
     (example_planner\<lparr>baseTime := b, duration := Fin 2, destMechanicalPos := [p, 0, 0, 0],
        iters := [example_stepper\<lparr>time := Fin 3, direction := StepForward, sTotal := 3\<rparr>]\<rparr>))
   = None"
  by (simp add: MotionPlanner_nextStep_def MotionPlanner_nextStep_at_def getNextTime_def
       example_planner_def Let_def)

lemma example_moveTo_segment:
  "MotionPlanner_moveTo example_interface b (Fin (of_int p)) (Fin 0) (Fin 20) (Fin 0) (Fin 10)
     (Fin (- 50)) (Fin 50) (example_planner\<lparr>destMechanicalPos := [p, 0, 0, 0], iters := its,
        baseTime := b0, duration := d0, motionType := mt\<rparr>)
   = (if its = [] then example_planner\<lparr>destMechanicalPos := [p, 0, 0, 0], iters := its,
        baseTime := b0, duration := d0, motionType := mt\<rparr>
      else example_planner\<lparr>baseTime := b, duration := Fin 2, destMechanicalPos := [p, 0, 0, 0]\<rparr>)"
  by (simp add: MotionPlanner_moveTo_def example_interface_def example_planner_def flt_of_int_def
        moveTo_locals_def moveTo_dist_def moveTo_minDuration_def moveTo_velE_def fsub_def
        std_max_def std_min_def feq_def sqrt_400 example_nextStep Let_def)

lemma example_peek_1:
  "planner_peekNextEvent example_drv (example_segment b p) = Some (example_event (b + 1))"
  by (simp add: example_drv_def example_segment_def example_segment_step_1 example_event_def)

lemma example_peek_2:
  "planner_peekNextEvent example_drv (planner_consumeNextEvent example_drv (example_segment b p))
   = Some (example_event (b + 2))"
  by (simp add: example_drv_def example_segment_def example_segment_step_1 example_segment_step_2
        example_event_def)

lemma example_consume_2:
  "planner_consumeNextEvent example_drv
     (planner_consumeNextEvent example_drv (example_segment b p)) = example_segment_done b p"
  by (simp add: example_drv_def example_segment_def example_segment_step_1 example_segment_step_2
        example_segment_done_def)

lemma example_peek_3:
  "planner_peekNextEvent example_drv (example_segment_done b p) = None"
  by (simp add: example_drv_def example_segment_done_def example_segment_step_3)

lemma example_planner_events:
  "set (planner_events example_drv n (example_segment b p))
   \<subseteq> {example_event (b + 1), example_event (b + 2)}"
proof (cases n)
  case 0
  then show ?thesis by simp
next
  case (Suc n1)
  show ?thesis
  proof (cases n1)
    case 0
    then show ?thesis using Suc by (simp add: example_peek_1)
  next
    case (Suc n2)
    show ?thesis
    proof (cases n2)
      case 0
      then show ?thesis using Suc \<open>n = Suc n1\<close> by (simp add: example_peek_1 example_peek_2)
    next
      case (Suc n3)
      then show ?thesis using \<open>n1 = Suc n2\<close> \<open>n = Suc n1\<close>
        by (simp add: example_peek_1 example_peek_2 example_consume_2 example_peek_3)
    qed
  qed
qed

lemma example_event_time: "event_time example_drv (example_event t) = t"
  by (simp add: example_drv_def example_event_def)

lemma example_events_from: "events_from example_drv b (example_segment b p)"
proof -
  have "b \<le> event_time example_drv e"
    if "e \<in> set (planner_events example_drv n (example_segment b p))" for n e
  proof -
    from that example_planner_events[of n b p]
    have "e = example_event (b + 1) \<or> e = example_event (b + 2)" by blast
    then show ?thesis by (auto simp: example_event_time)
  qed
  then show ?thesis unfolding events_from_def by blast
qed

lemma example_idle_run:
  assumes "doBufferMoves S" and "\<not> doShutdownAfterMoveCompletes S"
    and "\<not> doExitEventLoopAfterMoveCompletes S"
  shows "idle_run example_drv [example_idle, example_idle, example_idle]
           (S\<lparr>motionPlanner := example_segment b p\<rparr>)
         = ([example_event (b + 1), example_event (b + 2)],
            S\<lparr>motionPlanner := example_segment_done b p, lastMotionPlannedTime := b + 2\<rparr>)"
proof -
  have 1: "onIdleCpu_schedule example_drv example_idle (S\<lparr>motionPlanner := example_segment b p\<rparr>)
    = (Some (QueuedMotionEvent (example_event (b + 1))), True, False,
       S\<lparr>motionPlanner := planner_consumeNextEvent example_drv (example_segment b p),
         lastMotionPlannedTime := b + 1\<rparr>)"
    using assms
    by (simp add: onIdleCpu_schedule_def example_idle_def example_peek_1 example_peek_2
          example_event_time Let_def)
  have 2: "onIdleCpu_schedule example_drv example_idle
       (S\<lparr>motionPlanner := planner_consumeNextEvent example_drv (example_segment b p),
          lastMotionPlannedTime := b + 1\<rparr>)
    = (Some (QueuedMotionEvent (example_event (b + 2))), True, False,
       S\<lparr>motionPlanner := example_segment_done b p, lastMotionPlannedTime := b + 2\<rparr>)"
    using assms
    by (simp add: onIdleCpu_schedule_def example_idle_def example_peek_2 example_consume_2
          example_peek_3 example_event_time Let_def)
  have 3: "onIdleCpu_schedule example_drv example_idle
       (S\<lparr>motionPlanner := example_segment_done b p, lastMotionPlannedTime := b + 2\<rparr>)
    = (None, False, False,
       S\<lparr>motionPlanner := example_segment_done b p, lastMotionPlannedTime := b + 2\<rparr>)"
    using assms
    by (simp add: onIdleCpu_schedule_def example_idle_def example_peek_3 Let_def)
  show ?thesis by (simp add: 1 2 3)
qed

lemma example_queue_segment:
  "planner_moveTo example_drv b (Vector4f (Fin (of_int p)) (Fin 0) (Fin 20) (Fin 0)) (Fin 10)
     (fneg (Fin 50)) (Fin 50) flags (example_segment_done b0 (p - 2))
   = example_segment b p"
  "planner_arcTo example_drv b (Vector4f (Fin (of_int p)) (Fin 0) (Fin 20) (Fin 0)) center (Fin 10)
     (fneg (Fin 50)) (Fin 50) isCW (example_segment_done b0 (p - 2))
   = example_segment b p"
  using example_moveTo_segment[where b = b and p = p and b0 = b0 and ?d0.0 = "Fin 2"
      and mt = MotionMove
      and its = "[example_stepper\<lparr>time := Fin 3, direction := StepForward, sTotal := 3\<rparr>]"]
  by (simp_all add: example_drv_def example_segment_done_def example_segment_def example_planner_def)

lemma example_state_moving_run:
  "idle_run example_drv [example_idle, example_idle, example_idle] example_state_moving
   = ([example_event 8, example_event 9], example_state_moved)"
  using example_idle_run[of "example_state\<lparr>destMm := Vector4f (Fin 1) (Fin 0) (Fin 20) (Fin 0)\<rparr>" 7 1]
  by (simp add: example_state_moving_def example_state_moved_def example_state_def)

lemma example_state_moved_run:
  "idle_run example_drv [example_idle, example_idle, example_idle]
     (example_state_moved\<lparr>destMm := d, motionPlanner := example_segment 9 3\<rparr>)
   = ([example_event 10, example_event 11],
      example_state_moved\<lparr>destMm := d, motionPlanner := example_segment_done 9 3,
        lastMotionPlannedTime := 11\<rparr>)"
  using example_idle_run[of "example_state_moved\<lparr>destMm := d\<rparr>" 9 3]
  by (simp add: example_state_moving_def example_state_moved_def example_state_def)

section \<open>The claims\<close>



text \<open>
  C2. \<open>_nextStep\<close> tests the offsets \<open>sTotal - 1\<close> and \<open>sTotal + 1\<close> with \<open>testDir\<close>.
  \<open>testDir\<close> returns NaN when \<open>rootParam\<close> is negative; otherwise, for finite values and
  a time that is not negative (the constructor sets it to 0 and \<open>_nextStep\<close> only
  increases it), it returns the smallest of the roots \<open>term1 - sqrt rootParam\<close> and
  \<open>term1 + sqrt rootParam\<close> that is strictly greater than the time of the last step,
  and NaN when neither is. A candidate is valid when it is not NaN. The smaller valid
  candidate becomes the time of the stepper, with direction \<open>StepForward\<close> and
  \<open>sTotal + 1\<close> for the forward candidate (also when the two are equal) and
  \<open>StepBackward\<close> and \<open>sTotal - 1\<close> for the backward one; when both are invalid the
  time becomes NaN and nothing else changes.
\<close>

theorem C2_LinearDeltaStepper_nextStep:
  "(\<forall>s. fless (snd (getTerm1AndRootParam stp s)) (Fin 0) \<longrightarrow> testDir stp s = NaN)
   \<and> (\<forall>s a d t. getTerm1AndRootParam stp s = (Fin a, Fin d) \<and> 0 \<le> d
          \<and> time stp = Fin t \<and> 0 \<le> t \<longrightarrow>
        (testDir stp s = NaN \<and> a + sqrt d \<le> t)
        \<or> (\<exists>x. testDir stp s = Fin x \<and> is_smallest_root_after t a d x))
   \<and> negTime stp = testDir stp (fmul (flt_of_int (sTotal stp - 1)) (MM_STEPS stp))
   \<and> posTime stp = testDir stp (fmul (flt_of_int (sTotal stp + 1)) (MM_STEPS stp))
   \<and> (\<not> isnan (posTime stp) \<and> (isnan (negTime stp) \<or> \<not> fless (negTime stp) (posTime stp)) \<longrightarrow>
        LinearDeltaStepper_nextStep stp
        = stp\<lparr>time := posTime stp, direction := StepForward, sTotal := sTotal stp + 1\<rparr>)
   \<and> (\<not> isnan (negTime stp) \<and> (isnan (posTime stp) \<or> fless (negTime stp) (posTime stp)) \<longrightarrow>
        LinearDeltaStepper_nextStep stp
        = stp\<lparr>time := negTime stp, direction := StepBackward, sTotal := sTotal stp - 1\<rparr>)
   \<and> (isnan (negTime stp) \<and> isnan (posTime stp) \<longrightarrow>
        LinearDeltaStepper_nextStep stp = stp\<lparr>time := NaN\<rparr>)"
proof (intro conjI allI impI)
  fix s assume "fless (snd (getTerm1AndRootParam stp s)) (Fin 0)"
  then show "testDir stp s = NaN" by (rule testDir_negative_rootParam)
next
  fix s a d t
  assume "getTerm1AndRootParam stp s = (Fin a, Fin d) \<and> 0 \<le> d \<and> time stp = Fin t \<and> 0 \<le> t"
  then show "(testDir stp s = NaN \<and> a + sqrt d \<le> t)
        \<or> (\<exists>x. testDir stp s = Fin x \<and> is_smallest_root_after t a d x)"
    using testDir_smallest_root by blast
next
  show "negTime stp = testDir stp (fmul (flt_of_int (sTotal stp - 1)) (MM_STEPS stp))"
    by (simp add: negTime_def)
  show "posTime stp = testDir stp (fmul (flt_of_int (sTotal stp + 1)) (MM_STEPS stp))"
    by (simp add: posTime_def)
next
  assume "\<not> isnan (posTime stp) \<and> (isnan (negTime stp) \<or> \<not> fless (negTime stp) (posTime stp))"
  then show "LinearDeltaStepper_nextStep stp
        = stp\<lparr>time := posTime stp, direction := StepForward, sTotal := sTotal stp + 1\<rparr>"
    using nextStep_forward by blast
next
  assume "\<not> isnan (negTime stp) \<and> (isnan (posTime stp) \<or> fless (negTime stp) (posTime stp))"
  then show "LinearDeltaStepper_nextStep stp
        = stp\<lparr>time := negTime stp, direction := StepBackward, sTotal := sTotal stp - 1\<rparr>"
    using nextStep_backward by blast
next
  assume "isnan (negTime stp) \<and> isnan (posTime stp)"
  then show "LinearDeltaStepper_nextStep stp = stp\<lparr>time := NaN\<rparr>"
    using nextStep_both_invalid by blast
qed

theorem C2_LinearDeltaStepper_nextStep_witness:
  "fless (snd (getTerm1AndRootParam example_stepper_done (Fin 1))) (Fin 0)
   \<and> testDir example_stepper_done (Fin 1) = NaN
   \<and> getTerm1AndRootParam example_stepper (Fin 1) = (Fin 5, Fin 16)
   \<and> time example_stepper = Fin 0
   \<and> testDir example_stepper (Fin 1) = Fin 1
   \<and> is_smallest_root_after 0 5 16 1
   \<and> posTime example_stepper = Fin 1 \<and> negTime example_stepper = Fin 7
   \<and> LinearDeltaStepper_nextStep example_stepper
     = example_stepper\<lparr>time := Fin 1, direction := StepForward, sTotal := 1\<rparr>
   \<and> posTime example_stepper_down = NaN \<and> negTime example_stepper_down = Fin 1
   \<and> LinearDeltaStepper_nextStep example_stepper_down
     = example_stepper_down\<lparr>time := Fin 1, direction := StepBackward, sTotal := - 1\<rparr>
   \<and> posTime example_stepper_done = NaN \<and> negTime example_stepper_done = NaN
   \<and> LinearDeltaStepper_nextStep example_stepper_done = example_stepper_done\<lparr>time := NaN\<rparr>"
proof -
  note up = C2_LinearDeltaStepper_nextStep[of example_stepper]
  note down = C2_LinearDeltaStepper_nextStep[of example_stepper_down]
  note fin = C2_LinearDeltaStepper_nextStep[of example_stepper_done]
  have n: "fless (snd (getTerm1AndRootParam example_stepper_done (Fin 1))) (Fin 0)"
    by (simp add: getTerm1AndRootParam_def example_stepper_done_def example_stepper_def fsub_def)
  have 1: "testDir example_stepper_done (Fin 1) = NaN"
    by (rule fin[THEN conjunct1, rule_format, OF n])
  have g: "getTerm1AndRootParam example_stepper (Fin 1) = (Fin 5, Fin 16)"
    and t: "time example_stepper = Fin 0"
    by (simp_all add: getTerm1AndRootParam_def example_stepper_def fsub_def)
  have "(testDir example_stepper (Fin 1) = NaN \<and> 5 + sqrt 16 \<le> (0::real))
        \<or> (\<exists>x. testDir example_stepper (Fin 1) = Fin x \<and> is_smallest_root_after 0 5 16 x)"
    by (rule up[THEN conjunct2, THEN conjunct1, rule_format, of "Fin 1" 5 16 0]) (simp add: g t)
  then obtain x where x: "testDir example_stepper (Fin 1) = Fin x" "is_smallest_root_after 0 5 16 x"
    by (auto simp: sqrt_16)
  from x(2) have "x = 1" by (auto simp: is_smallest_root_after_def sqrt_16)
  with x have 2: "testDir example_stepper (Fin 1) = Fin 1" "is_smallest_root_after 0 5 16 1"
    by simp_all
  have "LinearDeltaStepper_nextStep example_stepper
     = example_stepper\<lparr>time := posTime example_stepper, direction := StepForward,
         sTotal := sTotal example_stepper + 1\<rparr>"
    by (rule up[THEN conjunct2, THEN conjunct2, THEN conjunct2, THEN conjunct2, THEN conjunct1,
          rule_format]) (simp add: example_posTime example_negTime)
  then have 3: "LinearDeltaStepper_nextStep example_stepper
     = example_stepper\<lparr>time := Fin 1, direction := StepForward, sTotal := 1\<rparr>"
    unfolding example_posTime by (simp add: example_stepper_def)
  have "LinearDeltaStepper_nextStep example_stepper_down
     = example_stepper_down\<lparr>time := negTime example_stepper_down, direction := StepBackward,
         sTotal := sTotal example_stepper_down - 1\<rparr>"
    by (rule down[THEN conjunct2, THEN conjunct2, THEN conjunct2, THEN conjunct2, THEN conjunct2,
          THEN conjunct1, rule_format]) (simp add: example_down_posTime example_down_negTime)
  then have 4: "LinearDeltaStepper_nextStep example_stepper_down
     = example_stepper_down\<lparr>time := Fin 1, direction := StepBackward, sTotal := - 1\<rparr>"
    unfolding example_down_negTime by (simp add: example_stepper_down_def example_stepper_def)
  have 5: "LinearDeltaStepper_nextStep example_stepper_done = example_stepper_done\<lparr>time := NaN\<rparr>"
    by (rule fin[THEN conjunct2, THEN conjunct2, THEN conjunct2, THEN conjunct2, THEN conjunct2,
          THEN conjunct2, rule_format]) (simp add: example_done_posTime example_done_negTime)
  show ?thesis
    by (intro conjI n 1 g t 2 3 4 5 example_posTime example_negTime example_down_posTime
          example_down_negTime example_done_posTime example_done_negTime)
qed

text \<open>
  C3. When the time of the selected stepper is greater than the duration of the segment,
  is NaN or is at most 0, \<open>nextStep\<close> returns the null event, emits no step (the steppers
  and the times are untouched) and sets the motion type to \<open>MotionNone\<close>; if the planner
  was homing, the mechanical position is replaced by the home position of the coordinate
  map, otherwise it is kept.
\<close>

theorem C3_nextStep_ends_motion:
  assumes "motionType P \<noteq> MotionNone"
    and "(if motionType P = MotionHome then homeIters P \<noteq> [] else iters P \<noteq> [])"
    and "fless (duration P) (selected_time P) \<or> isnan (selected_time P)
         \<or> fle (selected_time P) (Fin 0)"
  shows "MotionPlanner_nextStep iface P =
           (None, P\<lparr>destMechanicalPos :=
                      (if motionType P = MotionHome
                       then getHomePosition iface (destMechanicalPos P)
                       else destMechanicalPos P),
                    motionType := MotionNone\<rparr>)"
  using assms
  by (cases "motionType P")
     (auto simp: MotionPlanner_nextStep_def MotionPlanner_nextStep_at_def selected_time_def Let_def)

theorem C3_nextStep_ends_motion_witness:
  "motionType example_planner_homing \<noteq> MotionNone
   \<and> homeIters example_planner_homing \<noteq> []
   \<and> isnan (selected_time example_planner_homing)
   \<and> MotionPlanner_nextStep example_interface example_planner_homing
     = (None, example_planner_homing\<lparr>destMechanicalPos := [0, 0, 0, 0], motionType := MotionNone\<rparr>)
   \<and> motionType (example_planner\<lparr>duration := Fin (1 / 2)\<rparr>) \<noteq> MotionNone
   \<and> iters (example_planner\<lparr>duration := Fin (1 / 2)\<rparr>) \<noteq> []
   \<and> fless (duration (example_planner\<lparr>duration := Fin (1 / 2)\<rparr>))
        (selected_time (example_planner\<lparr>duration := Fin (1 / 2)\<rparr>))
   \<and> MotionPlanner_nextStep example_interface (example_planner\<lparr>duration := Fin (1 / 2)\<rparr>)
     = (None, example_planner\<lparr>duration := Fin (1 / 2), motionType := MotionNone\<rparr>)"
proof -
  have h: "motionType example_planner_homing \<noteq> MotionNone"
    "(if motionType example_planner_homing = MotionHome
      then homeIters example_planner_homing \<noteq> [] else iters example_planner_homing \<noteq> [])"
    "isnan (selected_time example_planner_homing)"
    by (simp_all add: example_planner_homing_def example_planner_def selected_time_def
          getNextTime_def)
  have m: "motionType (example_planner\<lparr>duration := Fin (1 / 2)\<rparr>) \<noteq> MotionNone"
    "(if motionType (example_planner\<lparr>duration := Fin (1 / 2)\<rparr>) = MotionHome
      then homeIters (example_planner\<lparr>duration := Fin (1 / 2)\<rparr>) \<noteq> []
      else iters (example_planner\<lparr>duration := Fin (1 / 2)\<rparr>) \<noteq> [])"
    "fless (duration (example_planner\<lparr>duration := Fin (1 / 2)\<rparr>))
        (selected_time (example_planner\<lparr>duration := Fin (1 / 2)\<rparr>))"
    by (simp_all add: example_planner_def selected_time_def getNextTime_def)
  have "MotionPlanner_nextStep example_interface example_planner_homing
     = (None, example_planner_homing\<lparr>destMechanicalPos := [0, 0, 0, 0], motionType := MotionNone\<rparr>)"
    using C3_nextStep_ends_motion[OF h(1,2), of example_interface] h(3)
    by (simp add: example_planner_homing_def example_planner_def example_interface_def)
  moreover have "MotionPlanner_nextStep example_interface (example_planner\<lparr>duration := Fin (1 / 2)\<rparr>)
     = (None, example_planner\<lparr>duration := Fin (1 / 2), motionType := MotionNone\<rparr>)"
    using C3_nextStep_ends_motion[OF m(1,2), of example_interface] m(3)
    by (simp add: example_planner_def)
  ultimately show ?thesis using h m
    by (simp add: example_planner_homing_def example_planner_def)
qed




text \<open>
  C5. The claim is that the duration \<open>dist / maxVelXyz\<close> of \<open>moveTo\<close> is at least one
  nanosecond, so that \<open>(e - curE) / minDuration\<close> never divides by zero. \<open>moveTo\<close>
  takes no maximum with a nanosecond: for a move that only extrudes the duration is 0
  and the quotient is an infinity.
\<close>

theorem C5_moveTo_duration_counterexample:
  "moveTo_minDuration (Fin 1, Fin 0, Fin 0, Fin 0) (Fin 1, Fin 0, Fin 0, Fin 5) (Fin 10) = Fin 0
   \<and> \<not> fle (Fin (1 / 10 ^ 9))
        (moveTo_minDuration (Fin 1, Fin 0, Fin 0, Fin 0) (Fin 1, Fin 0, Fin 0, Fin 5) (Fin 10))
   \<and> moveTo_velE (Fin 1, Fin 0, Fin 0, Fin 0) (Fin 1, Fin 0, Fin 0, Fin 5) (Fin 10) = PInf"
  by (simp add: example_moveTo_extrude_only fle_def feq_def)

text \<open>
  C5, amended. \<open>moveTo\<close> puts no lower bound on the duration. For a finite positive
  \<open>maxVelXyz\<close> and bounds \<open>minVelE < 0 < maxVelE\<close>, when the destination has the x, y, z
  of the current position, the duration \<open>dist / maxVelXyz\<close> is 0 and the quotient
  \<open>(e - curE) / minDuration\<close> is the value that a division by zero has for floats:
  +infinity, -infinity or NaN by the sign of \<open>e - curE\<close>. Nothing traps; the clamp
  replaces the quotient by \<open>minVelE\<close> when \<open>e < curE\<close> and by \<open>maxVelE\<close> otherwise, and
  the duration that the planner stores is \<open>(e - curE)\<close> divided by that bound, which is
  not negative.
\<close>

theorem C5_moveTo_duration:
  assumes "0 < v" and "mn < 0" and "0 < mx"
    and "iters P \<noteq> []"
    and "xyzeFromMechanical iface (destMechanicalPos P) = (Fin cx, Fin cy, Fin cz, Fin ce)"
    and "bound iface (fst (applyLeveling iface (x, y, z)),
                      fst (snd (applyLeveling iface (x, y, z))),
                      snd (snd (applyLeveling iface (x, y, z))), e')
         = (Fin cx, Fin cy, Fin cz, Fin e)"
  shows "moveTo_minDuration (Fin cx, Fin cy, Fin cz, Fin ce) (Fin cx, Fin cy, Fin cz, Fin e) (Fin v)
         = Fin 0
    \<and> \<not> fle (Fin (1 / 10 ^ 9))
          (moveTo_minDuration (Fin cx, Fin cy, Fin cz, Fin ce) (Fin cx, Fin cy, Fin cz, Fin e)
             (Fin v))
    \<and> moveTo_velE (Fin cx, Fin cy, Fin cz, Fin ce) (Fin cx, Fin cy, Fin cz, Fin e) (Fin v)
       = (if ce < e then PInf else if e < ce then NInf else NaN)
    \<and> mv_velE (moveTo_locals (Fin cx, Fin cy, Fin cz, Fin ce) (Fin cx, Fin cy, Fin cz, Fin e)
                 (Fin v) (Fin mn) (Fin mx))
       = (if e < ce then Fin mn else Fin mx)
    \<and> duration (MotionPlanner_moveTo iface base x y z e' (Fin v) (Fin mn) (Fin mx) P)
       = fdiv (fsub (Fin e) (Fin ce)) (if e < ce then Fin mn else Fin mx)
    \<and> fle (Fin 0) (duration (MotionPlanner_moveTo iface base x y z e' (Fin v) (Fin mn) (Fin mx) P))"
proof -
  note D = moveTo_same_xyz(2,3)[OF assms(1), of cx cy cz]
  note L = moveTo_same_xyz_locals[OF assms(1,2,3), of cx cy cz ce e]
  have d: "duration (MotionPlanner_moveTo iface base x y z e' (Fin v) (Fin mn) (Fin mx) P)
       = fdiv (fsub (Fin e) (Fin ce)) (if e < ce then Fin mn else Fin mx)"
    unfolding MotionPlanner_moveTo_locals[OF assms(4)] assms(5,6) by (simp add: Let_def L(2))
  have n: "fle (Fin 0) (fdiv (fsub (Fin e) (Fin ce)) (if e < ce then Fin mn else Fin mx))"
  proof (cases "e < ce")
    case True
    then have "0 \<le> (e - ce) / mn" using assms(2) by (simp add: divide_nonpos_neg)
    then show ?thesis using True assms(2) by (simp add: fsub_def fle_iff not_less)
  next
    case False
    then have "0 \<le> (e - ce) / mx" using assms(3) by simp
    then show ?thesis using False assms(3) by (simp add: fsub_def fle_iff not_less)
  qed
  show ?thesis
    unfolding d using D(1)[of "Fin ce" "Fin e"] D(2)[of ce e] L(1) n
    by (simp add: fle_def feq_def)
qed

theorem C5_moveTo_duration_witness:
  "(0::real) < 10 \<and> (- 50 :: real) < 0 \<and> (0::real) < 50
   \<and> iters example_planner \<noteq> []
   \<and> xyzeFromMechanical example_interface (destMechanicalPos example_planner)
     = (Fin 1, Fin 0, Fin 0, Fin 0)
   \<and> moveTo_minDuration (Fin 1, Fin 0, Fin 0, Fin 0) (Fin 1, Fin 0, Fin 0, Fin 5) (Fin 10) = Fin 0
   \<and> moveTo_velE (Fin 1, Fin 0, Fin 0, Fin 0) (Fin 1, Fin 0, Fin 0, Fin 5) (Fin 10) = PInf
   \<and> mv_velE (moveTo_locals (Fin 1, Fin 0, Fin 0, Fin 0) (Fin 1, Fin 0, Fin 0, Fin 5) (Fin 10)
        (Fin (- 50)) (Fin 50)) = Fin 50
   \<and> duration (MotionPlanner_moveTo example_interface 7 (Fin 1) (Fin 0) (Fin 0) (Fin 5) (Fin 10)
        (Fin (- 50)) (Fin 50) example_planner) = Fin (1 / 10)
   \<and> moveTo_velE (Fin 1, Fin 0, Fin 0, Fin 5) (Fin 1, Fin 0, Fin 0, Fin 0) (Fin 10) = NInf
   \<and> mv_velE (moveTo_locals (Fin 1, Fin 0, Fin 0, Fin 5) (Fin 1, Fin 0, Fin 0, Fin 0) (Fin 10)
        (Fin (- 50)) (Fin 50)) = Fin (- 50)
   \<and> duration (MotionPlanner_moveTo example_interface 7 (Fin 1) (Fin 0) (Fin 0) (Fin 0) (Fin 10)
        (Fin (- 50)) (Fin 50) example_planner) = Fin 0"
proof -
  have h: "(0::real) < 10" "(- 50 :: real) < 0" "(0::real) < 50" "iters example_planner \<noteq> []"
    by (simp_all add: example_planner_def)
  note A = C5_moveTo_duration[where iface = example_interface and P = example_planner
      and x = "Fin 1" and y = "Fin 0" and z = "Fin 0" and e' = "Fin 5" and e = 5 and base = 7,
      OF h example_cur, unfolded example_dest, OF refl]
  note B = C5_moveTo_duration[where iface = example_interface and P = example_planner
      and x = "Fin 1" and y = "Fin 0" and z = "Fin 0" and e' = "Fin 0" and e = 0 and base = 7,
      OF h example_cur, unfolded example_dest, OF refl]
  have 1: "moveTo_minDuration (Fin 1, Fin 0, Fin 0, Fin 0) (Fin 1, Fin 0, Fin 0, Fin 5) (Fin 10)
           = Fin 0"
    by (rule A[THEN conjunct1])
  have 2: "moveTo_velE (Fin 1, Fin 0, Fin 0, Fin 0) (Fin 1, Fin 0, Fin 0, Fin 5) (Fin 10) = PInf"
    using A[THEN conjunct2, THEN conjunct2, THEN conjunct1] by simp
  have 3: "mv_velE (moveTo_locals (Fin 1, Fin 0, Fin 0, Fin 0) (Fin 1, Fin 0, Fin 0, Fin 5) (Fin 10)
        (Fin (- 50)) (Fin 50)) = Fin 50"
    using A[THEN conjunct2, THEN conjunct2, THEN conjunct2, THEN conjunct1] by simp
  have 4: "duration (MotionPlanner_moveTo example_interface 7 (Fin 1) (Fin 0) (Fin 0) (Fin 5)
        (Fin 10) (Fin (- 50)) (Fin 50) example_planner) = Fin (1 / 10)"
    using A[THEN conjunct2, THEN conjunct2, THEN conjunct2, THEN conjunct2, THEN conjunct1]
    by (simp add: fsub_def)
  have 5: "duration (MotionPlanner_moveTo example_interface 7 (Fin 1) (Fin 0) (Fin 0) (Fin 0)
        (Fin 10) (Fin (- 50)) (Fin 50) example_planner) = Fin 0"
    using B[THEN conjunct2, THEN conjunct2, THEN conjunct2, THEN conjunct2, THEN conjunct1]
    by (simp add: fsub_def)
  have 6: "moveTo_velE (Fin 1, Fin 0, Fin 0, Fin 5) (Fin 1, Fin 0, Fin 0, Fin 0) (Fin 10) = NInf"
    by (simp add: moveTo_same_xyz(3))
  have 7: "mv_velE (moveTo_locals (Fin 1, Fin 0, Fin 0, Fin 5) (Fin 1, Fin 0, Fin 0, Fin 0) (Fin 10)
        (Fin (- 50)) (Fin 50)) = Fin (- 50)"
    by (simp add: moveTo_same_xyz_locals(1))
  show ?thesis
    by (intro conjI h example_cur 1 2 3 4 5 6 7)
qed

text \<open>
  C6. The claim is that \<open>coordToPrimitive\<close> is, for every unit mode, position mode,
  host-zero offset and current destination, the composition "interpret in the unit mode,
  offset by the host zero, add the current destination if relative". \<open>coordToAbsolute\<close>
  adds the current destination, which is in millimetres, to the parameter before
  \<open>coordToMm\<close> converts the sum, so that in relative mode with inches the destination
  is scaled by 25.4 too: with the destination at x = 10 mm and the host zero at 2 mm, a
  relative move of 0 inches (G1 X0) goes to x = 256 mm, where the composition gives
  12 mm.
\<close>

theorem C6_coordToPrimitive_relative_inches:
  "unitMode example_state_inches = UNIT_IN
   \<and> positionMode example_state_inches = POS_RELATIVE
   \<and> destMm example_state_inches = Vector4f (Fin 10) (Fin 0) (Fin 0) (Fin 0)
   \<and> hostZeroOffset example_state_inches = Vector4f (Fin 2) (Fin 0) (Fin 0) (Fin 0)
   \<and> coordToPrimitive example_state_inches (Vector4f (Fin 0) (Fin 0) (Fin 0) (Fin 0))
     = Vector4f (Fin 256) (Fin 0) (Fin 0) (Fin 0)
   \<and> spec_coordToPrimitive example_state_inches (Vector4f (Fin 0) (Fin 0) (Fin 0) (Fin 0))
     = Vector4f (Fin 12) (Fin 0) (Fin 0) (Fin 0)
   \<and> destMm (fst (snd (execute example_drv example_env
              (example_command ''G1'' [CHR ''X'' \<mapsto> Fin 0]) example_state_inches)))
     = Vector4f (Fin 256) (Fin 0) (Fin 0) (Fin 0)"
proof -
  have c: "coordToPrimitive example_state_inches (Vector4f (Fin 0) (Fin 0) (Fin 0) (Fin 0))
     = Vector4f (Fin 256) (Fin 0) (Fin 0) (Fin 0)"
    by (simp add: coordToPrimitive_def coordToAbsolute_def coordToMm_def
          example_state_inches_def example_state_def vec_add_def vec_scale_def MM_PER_IN_def)
  have s: "spec_coordToPrimitive example_state_inches (Vector4f (Fin 0) (Fin 0) (Fin 0) (Fin 0))
     = Vector4f (Fin 12) (Fin 0) (Fin 0) (Fin 0)"
    by (simp add: spec_coordToPrimitive_def coordToMm_def
          example_state_inches_def example_state_def vec_add_def vec_scale_def MM_PER_IN_def)
  have g: "moveGuards example_drv example_env example_state_inches = Some example_state_inches"
    by (simp add: moveGuards_def isHotendReady_def example_drv_def example_state_inches_def
          example_state_def MotionPlanner_nextStep_def Let_def)
  have t: "trueDest example_drv (example_command ''G1'' [CHR ''X'' \<mapsto> Fin 0])
             example_state_inches = Vector4f (Fin 256) (Fin 0) (Fin 0) (Fin 0)"
    by (simp add: trueDest_def example_command_def getParam_def hasParam_def Let_def
          coordToPrimitive_def coordToAbsolute_def coordToMm_def example_drv_def
          example_state_inches_def example_state_def vec_add_def vec_scale_def MM_PER_IN_def)
  have i: "isHomed example_state_inches"
    "\<not> hasParam (example_command ''G1'' [CHR ''X'' \<mapsto> Fin 0]) CHR ''F''"
    by (simp_all add: example_state_inches_def example_state_def hasParam_def example_command_def)
  have e: "destMm (fst (snd (execute example_drv example_env
              (example_command ''G1'' [CHR ''X'' \<mapsto> Fin 0]) example_state_inches)))
     = Vector4f (Fin 256) (Fin 0) (Fin 0) (Fin 0)"
    by (simp add: execute_def isOp_def execute_G0_G1_def g i t queueMovement_def Let_def)
       (simp add: example_command_def)
  show ?thesis
    using c s e by (simp add: example_state_inches_def example_state_def)
qed

text \<open>
  C7. \<open>_lastMotionPlannedTime\<close> is the time of the last motion event that \<open>onIdleCpu\<close>
  handed to the scheduler. \<open>queueMovement\<close> and \<open>queueArc\<close> pass the planner the start
  time \<open>max(_lastMotionPlannedTime, now)\<close>, so that, with a planner that emits no event
  of a segment before the start time it was given, no motion event of the new segment
  that is scheduled afterwards has a deadline before the last event scheduled before it
  (nor before the clock time at which the segment was queued).
\<close>

theorem C7_segment_start_time:
  assumes "idle_run drv envs S0 = (evs, S)" and "evs \<noteq> []"
    and "\<forall>start. events_from drv start
           (planner_moveTo drv start dest
              (case velXyz of Some v \<Rightarrow> v | None \<Rightarrow> destMoveRatePrimitive S)
              (fneg (maxRetractRate drv)) (maxExtrudeRate drv) flags (motionPlanner S))"
    and "\<forall>start. events_from drv start
           (planner_arcTo drv start dest center (destMoveRatePrimitive S)
              (fneg (maxRetractRate drv)) (maxExtrudeRate drv) isCW (motionPlanner S))"
    and "idle_run drv envs1 (queueMovement drv env dest velXyz flags S) = (evs1, S1)"
    and "idle_run drv envs2 (queueArc drv env dest center isCW S) = (evs2, S2)"
  shows "lastMotionPlannedTime S = event_time drv (last evs)
    \<and> motionPlanner (queueMovement drv env dest velXyz flags S)
       = planner_moveTo drv (max (event_time drv (last evs)) (env_now env)) dest
           (case velXyz of Some v \<Rightarrow> v | None \<Rightarrow> destMoveRatePrimitive S)
           (fneg (maxRetractRate drv)) (maxExtrudeRate drv) flags (motionPlanner S)
    \<and> motionPlanner (queueArc drv env dest center isCW S)
       = planner_arcTo drv (max (event_time drv (last evs)) (env_now env)) dest center
           (destMoveRatePrimitive S) (fneg (maxRetractRate drv)) (maxExtrudeRate drv) isCW
           (motionPlanner S)
    \<and> (\<forall>e\<in>set evs1. event_time drv (last evs) \<le> event_time drv e
                     \<and> env_now env \<le> event_time drv e)
    \<and> (\<forall>e\<in>set evs2. event_time drv (last evs) \<le> event_time drv e
                     \<and> env_now env \<le> event_time drv e)"
proof -
  define start where "start = max (event_time drv (last evs)) (env_now env)"
  have l: "lastMotionPlannedTime S = event_time drv (last evs)"
    using idle_run_last[OF assms(1)] assms(2) by simp
  have m: "motionPlanner (queueMovement drv env dest velXyz flags S)
       = planner_moveTo drv start dest
           (case velXyz of Some v \<Rightarrow> v | None \<Rightarrow> destMoveRatePrimitive S)
           (fneg (maxRetractRate drv)) (maxExtrudeRate drv) flags (motionPlanner S)"
    by (simp add: queueMovement_def Let_def l start_def)
  have a: "motionPlanner (queueArc drv env dest center isCW S)
       = planner_arcTo drv start dest center
           (destMoveRatePrimitive S) (fneg (maxRetractRate drv)) (maxExtrudeRate drv) isCW
           (motionPlanner S)"
    by (simp add: queueArc_def Let_def l start_def)
  have s: "event_time drv (last evs) \<le> start" "env_now env \<le> start"
    by (simp_all add: start_def)
  have e1: "start \<le> event_time drv e" if "e \<in> set evs1" for e
  proof -
    from idle_run_events[OF assms(5)] that
    have "e \<in> set (planner_events drv (length envs1)
                     (motionPlanner (queueMovement drv env dest velXyz flags S)))" by blast
    then show ?thesis using assms(3)[rule_format, of start] unfolding m events_from_def by blast
  qed
  have e2: "start \<le> event_time drv e" if "e \<in> set evs2" for e
  proof -
    from idle_run_events[OF assms(6)] that
    have "e \<in> set (planner_events drv (length envs2)
                     (motionPlanner (queueArc drv env dest center isCW S)))" by blast
    then show ?thesis using assms(4)[rule_format, of start] unfolding a events_from_def by blast
  qed
  have "\<forall>e\<in>set evs1. event_time drv (last evs) \<le> event_time drv e \<and> env_now env \<le> event_time drv e"
    using e1 s by force
  moreover have "\<forall>e\<in>set evs2. event_time drv (last evs) \<le> event_time drv e \<and> env_now env \<le> event_time drv e"
    using e2 s by force
  ultimately show ?thesis using l m a unfolding start_def by blast
qed

theorem C7_segment_start_time_witness:
  "idle_run example_drv [example_idle, example_idle, example_idle] example_state_moving
     = ([example_event 8, example_event 9], example_state_moved)
   \<and> lastMotionPlannedTime example_state_moved = 9
   \<and> env_now example_env = 3
   \<and> motionPlanner (queueMovement example_drv example_env
         (Vector4f (Fin 3) (Fin 0) (Fin 20) (Fin 0)) None 0 example_state_moved)
     = example_segment 9 3
   \<and> motionPlanner (queueArc example_drv example_env
         (Vector4f (Fin 3) (Fin 0) (Fin 20) (Fin 0)) (Fin 0, Fin 0, Fin 0) True example_state_moved)
     = example_segment 9 3
   \<and> fst (idle_run example_drv [example_idle, example_idle, example_idle]
         (queueMovement example_drv example_env
            (Vector4f (Fin 3) (Fin 0) (Fin 20) (Fin 0)) None 0 example_state_moved))
     = [example_event 10, example_event 11]
   \<and> fst (idle_run example_drv [example_idle, example_idle, example_idle]
         (queueArc example_drv example_env
            (Vector4f (Fin 3) (Fin 0) (Fin 20) (Fin 0)) (Fin 0, Fin 0, Fin 0) True
            example_state_moved))
     = [example_event 10, example_event 11]
   \<and> list_all (\<lambda>e. event_time example_drv (example_event 9) \<le> event_time example_drv e
                    \<and> 3 \<le> event_time example_drv e)
        [example_event 10, example_event 11]"
proof -
  let ?dest = "Vector4f (Fin 3) (Fin 0) (Fin 20) (Fin 0)"
  let ?idle = "[example_idle, example_idle, example_idle]"
  have v: "destMoveRatePrimitive example_state_moved = Fin 10"
    "maxRetractRate example_drv = Fin 50" "maxExtrudeRate example_drv = Fin 50"
    "motionPlanner example_state_moved = example_segment_done 7 1"
    by (simp_all add: example_state_moved_def example_state_moving_def example_state_def
          example_drv_def)
  have seg: "planner_moveTo example_drv b ?dest (Fin 10) (Fin (- 50)) (Fin 50) 0
               (example_segment_done 7 1) = example_segment b 3"
    "planner_arcTo example_drv b ?dest (Fin 0, Fin 0, Fin 0) (Fin 10) (Fin (- 50)) (Fin 50)
               True (example_segment_done 7 1) = example_segment b 3" for b
    using example_queue_segment[where b = b and p = 3 and b0 = 7] by simp_all
  have h1: "\<forall>start. events_from example_drv start
           (planner_moveTo example_drv start ?dest
              (case None of Some v \<Rightarrow> v | None \<Rightarrow> destMoveRatePrimitive example_state_moved)
              (fneg (maxRetractRate example_drv)) (maxExtrudeRate example_drv) 0
              (motionPlanner example_state_moved))"
    by (simp add: v seg example_events_from)
  have h2: "\<forall>start. events_from example_drv start
           (planner_arcTo example_drv start ?dest (Fin 0, Fin 0, Fin 0)
              (destMoveRatePrimitive example_state_moved)
              (fneg (maxRetractRate example_drv)) (maxExtrudeRate example_drv) True
              (motionPlanner example_state_moved))"
    by (simp add: v seg example_events_from)
  have now: "env_now example_env = 3" by (simp add: example_env_def)
  have l: "lastMotionPlannedTime example_state_moved = 9"
    by (simp add: example_state_moved_def)
  have qm: "queueMovement example_drv example_env ?dest None 0 example_state_moved
            = example_state_moved\<lparr>destMm := ?dest, motionPlanner := example_segment 9 3\<rparr>"
    by (simp add: queueMovement_def Let_def v seg l now)
  have qa: "queueArc example_drv example_env ?dest (Fin 0, Fin 0, Fin 0) True example_state_moved
            = example_state_moved\<lparr>destMm := ?dest, motionPlanner := example_segment 9 3\<rparr>"
    by (simp add: queueArc_def Let_def v seg l now)
  have r1: "idle_run example_drv ?idle
              (queueMovement example_drv example_env ?dest None 0 example_state_moved)
            = ([example_event 10, example_event 11],
               example_state_moved\<lparr>destMm := ?dest, motionPlanner := example_segment_done 9 3,
                 lastMotionPlannedTime := 11\<rparr>)"
    unfolding qm by (rule example_state_moved_run)
  have r2: "idle_run example_drv ?idle
              (queueArc example_drv example_env ?dest (Fin 0, Fin 0, Fin 0) True
                 example_state_moved)
            = ([example_event 10, example_event 11],
               example_state_moved\<lparr>destMm := ?dest, motionPlanner := example_segment_done 9 3,
                 lastMotionPlannedTime := 11\<rparr>)"
    unfolding qa by (rule example_state_moved_run)
  have ne: "[example_event 8, example_event 9] \<noteq> []" by simp
  note C = C7_segment_start_time[OF example_state_moving_run ne h1 h2 r1 r2, unfolded now]
  have e: "list_all (\<lambda>e. event_time example_drv (example_event 9) \<le> event_time example_drv e
                    \<and> 3 \<le> event_time example_drv e)
        [example_event 10, example_event 11]"
    using C[THEN conjunct2, THEN conjunct2, THEN conjunct2, THEN conjunct1]
    by (simp only: list_all_iff last.simps list.simps if_False if_True refl)
  have m: "motionPlanner (queueMovement example_drv example_env ?dest None 0 example_state_moved)
     = example_segment 9 3"
    by (simp add: qm)
  have a: "motionPlanner (queueArc example_drv example_env ?dest (Fin 0, Fin 0, Fin 0) True
              example_state_moved) = example_segment 9 3"
    by (simp add: qa)
  have f1: "fst (idle_run example_drv ?idle
              (queueMovement example_drv example_env ?dest None 0 example_state_moved))
     = [example_event 10, example_event 11]"
    by (simp only: r1 fst_conv)
  have f2: "fst (idle_run example_drv ?idle
              (queueArc example_drv example_env ?dest (Fin 0, Fin 0, Fin 0) True
                 example_state_moved))
     = [example_event 10, example_event 11]"
    by (simp only: r2 fst_conv)
  show ?thesis
    by (intro conjI example_state_moving_run l now m a f1 f2 e)
qed

text \<open>
  C8. Executing G92 a second time with the same arguments (none, or any subset of X, Y,
  Z, E) leaves the state as the first execution left it, whatever the destination and
  the offset were before: the host-zero offset is the same, and so is every destination
  computed afterwards.
\<close>

theorem C8_G92_idempotent:
  "cmd_opcode cmd = ''G92'' \<Longrightarrow>
   fst (snd (execute drv env' cmd (fst (snd (execute drv env cmd S)))))
     = fst (snd (execute drv env cmd S))
   \<and> hostZeroOffset (fst (snd (execute drv env' cmd (fst (snd (execute drv env cmd S))))))
     = hostZeroOffset (fst (snd (execute drv env cmd S)))
   \<and> coordToPrimitive (fst (snd (execute drv env' cmd (fst (snd (execute drv env cmd S)))))) c
     = coordToPrimitive (fst (snd (execute drv env cmd S))) c
   \<and> fst (execute drv env cmd S) = Returned
   \<and> snd (snd (execute drv env cmd S)) = [Ok]"
  using execute_G92_twice[of drv cmd S] execute_G92_result[of drv cmd S]
  by (simp add: execute_G92_branch) (metis fst_conv)

theorem C8_G92_idempotent_witness:
  "cmd_opcode (example_command ''G92'' [CHR ''X'' \<mapsto> Fin 3]) = ''G92''
   \<and> fst (snd (execute example_drv example_env (example_command ''G92'' [CHR ''X'' \<mapsto> Fin 3])
          example_state))
     = example_state\<lparr>hostZeroOffset := Vector4f (Fin 7) (Fin 0) (Fin 0) (Fin 0)\<rparr>
   \<and> fst (snd (execute example_drv example_env (example_command ''G92'' [CHR ''X'' \<mapsto> Fin 3])
          (example_state\<lparr>hostZeroOffset := Vector4f (Fin 7) (Fin 0) (Fin 0) (Fin 0)\<rparr>)))
     = example_state\<lparr>hostZeroOffset := Vector4f (Fin 7) (Fin 0) (Fin 0) (Fin 0)\<rparr>
   \<and> cmd_opcode (example_command ''G92'' Map.empty) = ''G92''
   \<and> fst (snd (execute example_drv example_env (example_command ''G92'' Map.empty) example_state))
     = example_state\<lparr>hostZeroOffset := Vector4f (Fin 10) (Fin 0) (Fin 0) (Fin 0)\<rparr>
   \<and> fst (snd (execute example_drv example_env (example_command ''G92'' Map.empty)
          (example_state\<lparr>hostZeroOffset := Vector4f (Fin 10) (Fin 0) (Fin 0) (Fin 0)\<rparr>)))
     = example_state\<lparr>hostZeroOffset := Vector4f (Fin 10) (Fin 0) (Fin 0) (Fin 0)\<rparr>"
proof -
  have x: "cmd_opcode (example_command ''G92'' [CHR ''X'' \<mapsto> Fin 3]) = ''G92''"
    and n: "cmd_opcode (example_command ''G92'' Map.empty) = ''G92''"
    by (simp_all add: example_command_def)
  have 1: "fst (snd (execute example_drv example_env
              (example_command ''G92'' [CHR ''X'' \<mapsto> Fin 3]) example_state))
     = example_state\<lparr>hostZeroOffset := Vector4f (Fin 7) (Fin 0) (Fin 0) (Fin 0)\<rparr>"
    by (simp add: execute_G92_branch[OF x])
       (simp add: execute_G92_def example_command_def hasAnyXYZEParam_def hasParam_def getParam_def
          setHostZeroPos_def coordToMm_def vec_sub_def fsub_def example_state_def Let_def)
  have 2: "fst (snd (execute example_drv example_env (example_command ''G92'' Map.empty)
              example_state))
     = example_state\<lparr>hostZeroOffset := Vector4f (Fin 10) (Fin 0) (Fin 0) (Fin 0)\<rparr>"
    by (simp add: execute_G92_branch[OF n])
       (simp add: execute_G92_def example_command_def hasAnyXYZEParam_def hasParam_def
          setHostZeroPos_def vec_sub_def fsub_def example_state_def)
  note a = C8_G92_idempotent[OF x, of example_drv example_env example_env example_state,
      THEN conjunct1, unfolded 1]
  note b = C8_G92_idempotent[OF n, of example_drv example_env example_env example_state,
      THEN conjunct1, unfolded 2]
  show ?thesis
    by (intro conjI x n 1 2 a b)
qed

text \<open>
  C9. (The claim: on a command whose opcode is not one of the supported verbs, \<open>execute\<close>
  replies with an error and processing continues.) The last branch of \<open>execute\<close> throws
  \<open>std::runtime_error\<close> and calls \<open>reply\<close> nowhere: for G4 no reply is sent and
  \<open>execute\<close> does not return.
\<close>

theorem C9_unsupported_opcode_counterexample:
  "fst (execute example_drv example_env (example_command ''G4'' Map.empty) example_state)
     \<noteq> Returned
   \<and> snd (snd (execute example_drv example_env (example_command ''G4'' Map.empty) example_state))
     = []"
  by (simp add: execute_def isOp_def isTxxx_def example_command_def)

text \<open>
  C9, amended. On a command whose opcode is not one of the supported verbs, \<open>execute\<close>
  throws \<open>std::runtime_error\<close> with the message "unrecognized gcode opcode: '...'" that
  quotes the opcode; it sends no reply and leaves the state as it was.
\<close>

theorem C9_unsupported_opcode_throws:
  "\<not> supported cmd \<Longrightarrow>
   execute drv env cmd S
   = (Threw (''unrecognized gcode opcode: '' @ [CHR 0x27] @ cmd_opcode cmd @ [CHR 0x27]), S, [])"
  by (rule execute_unsupported)

theorem C9_unsupported_opcode_throws_witness:
  "\<not> supported (example_command ''G4'' Map.empty)
   \<and> execute example_drv example_env (example_command ''G4'' Map.empty) example_state
     = (Threw (''unrecognized gcode opcode: '' @ [CHR 0x27] @ ''G4'' @ [CHR 0x27]),
        example_state, [])"
proof -
  have h: "\<not> supported (example_command ''G4'' Map.empty)"
    by (simp add: supported_def supported_verbs_def isTxxx_def example_command_def)
  have c: "cmd_opcode (example_command ''G4'' Map.empty) = ''G4''"
    by (simp add: example_command_def)
  show ?thesis
    using C9_unsupported_opcode_throws[OF h, of example_drv example_env example_state] h
    unfolding c by blast
qed

text \<open>
  C10. Calling \<open>nextStep\<close> while the motion type is \<open>MotionNone\<close> returns the null event
  and leaves the planner as it was (mechanical positions, base time, duration and motion
  type included); \<open>readyForNextMove\<close> is still true afterwards.
\<close>

theorem C10_nextStep_idle:
  "motionType P = MotionNone \<Longrightarrow>
   MotionPlanner_nextStep iface P = (None, P)
   \<and> readyForNextMove (snd (MotionPlanner_nextStep iface P))"
  by (simp add: MotionPlanner_nextStep_def readyForNextMove_def)

theorem C10_nextStep_idle_witness:
  "motionType (example_planner\<lparr>motionType := MotionNone\<rparr>) = MotionNone
   \<and> MotionPlanner_nextStep example_interface (example_planner\<lparr>motionType := MotionNone\<rparr>)
     = (None, example_planner\<lparr>motionType := MotionNone\<rparr>)
   \<and> readyForNextMove (snd (MotionPlanner_nextStep example_interface
        (example_planner\<lparr>motionType := MotionNone\<rparr>)))"
proof -
  have h: "motionType (example_planner\<lparr>motionType := MotionNone\<rparr>) = MotionNone"
    by simp
  from C10_nextStep_idle[OF h, of example_interface] h show ?thesis
    by blast
qed

end
